theory Spec2Isabelle
  imports Complex_Main
begin

section \<open>Data model\<close>

text \<open>
  The bot of \<^verbatim>\<open>main.py\<close> is a handful of coroutines around three external
  collaborators: the chat transport (\<^verbatim>\<open>reply_text\<close>, \<^verbatim>\<open>send_chat_action\<close>,
  \<^verbatim>\<open>get_file\<close>, \<^verbatim>\<open>download_to_drive\<close>), the completion endpoint and the
  transcription endpoint. Each handler is modelled as a function from a state to a
  result and a new state. The state holds the file system and the trace of every
  external call and log line made so far, in order. What a collaborator answers is
  read from a \<open>world\<close>: one function per remote call, from the time of the call (the
  number of events already in the trace) and the arguments to the outcome. An
  exception is a value of type \<open>exn\<close>; a raise is the result \<open>Inl e\<close>.
\<close>

type_synonym bytes = "char list"

text \<open>A path is the list of its components; \<^verbatim>\<open>BASE_DIR / "temp_voice.ogg"\<close> appends one.\<close>

type_synonym path = "string list"

datatype exn =
    KeyError string
  | IndexError
  | ValueError
  | FileNotFoundError
  | JSONDecodeError
  | TransportError string
  | ProviderError string

datatype parse_mode = Markdown | NoParseMode

datatype log_level = Warning | Error

text \<open>The keyword arguments of \<^verbatim>\<open>client.chat.completions.create\<close>.\<close>

record completion_request =
  messages :: "(string \<times> string) list"
  model :: string
  temperature :: rat

text \<open>The keyword arguments of \<^verbatim>\<open>client.audio.transcriptions.create\<close>.\<close>

record transcription_request =
  file_name :: string
  file_bytes :: bytes
  whisper_model :: string
  language :: string
  response_format :: string

text \<open>
  \<^verbatim>\<open>download_to_drive\<close> either writes the whole payload to the path it is given, or
  raises, possibly after leaving a partial file behind.
\<close>

datatype download_outcome =
    Downloaded bytes
  | DownloadFailed exn "bytes option"

datatype event =
    Reply string parse_mode "exn option"
  | ChatAction int string "exn option"
  | GetFile string "exn + string"
  | Download string path download_outcome
  | OpenRead path "bytes option"
  | Transcribe transcription_request "exn + string"
  | Complete completion_request "exn + string option list"
  | Remove path
  | Log log_level string exn

record state =
  files :: "path \<rightharpoonup> bytes"
  trace :: "event list"

text \<open>
  The answers of the collaborators. A completion is the list of its choices, each the
  \<^verbatim>\<open>message.content\<close> of the choice (\<open>None\<close> for Python's \<^verbatim>\<open>None\<close>). The last field is
  not a collaborator but the part of \<^verbatim>\<open>str.format\<close> that is left open: the value of a
  replacement field that is more than a name, given the field and the arguments.
\<close>

record world =
  reply_text_result :: "nat \<Rightarrow> string \<Rightarrow> parse_mode \<Rightarrow> exn option"
  send_chat_action_result :: "nat \<Rightarrow> int \<Rightarrow> string \<Rightarrow> exn option"
  get_file_result :: "nat \<Rightarrow> string \<Rightarrow> exn + string"
  download_result :: "nat \<Rightarrow> string \<Rightarrow> download_outcome"
  transcription_result :: "nat \<Rightarrow> transcription_request \<Rightarrow> exn + string"
  completion_result :: "nat \<Rightarrow> completion_request \<Rightarrow> exn + string option list"
  extended_field :: "string \<Rightarrow> (string \<rightharpoonup> string) \<Rightarrow> exn + string"

text \<open>
  The text bundle \<^verbatim>\<open>TEXTS\<close>: a dictionary of sections, each a dictionary of strings.
\<close>

type_synonym texts = "string \<rightharpoonup> (string \<rightharpoonup> string)"

text \<open>The module-level globals the handlers read.\<close>

record config =
  BASE_DIR :: path
  TEXTS :: texts

text \<open>
  The fields of an update the handlers read: \<^verbatim>\<open>update.effective_chat.id\<close>,
  \<^verbatim>\<open>update.message.text\<close> and \<^verbatim>\<open>update.message.voice.file_id\<close>. The filters of
  the registered handlers make the field a handler reads present.
\<close>

record update =
  chat_id :: int
  message_text :: string
  voice_file_id :: string

section \<open>Primitives\<close>

definition now :: "state \<Rightarrow> nat" where
  "now s = length (trace s)"

definition emit :: "event \<Rightarrow> state \<Rightarrow> state" where
  "emit ev s = s\<lparr>trace := trace s @ [ev]\<rparr>"

text \<open>\<^verbatim>\<open>TEXTS[section][key]\<close>: a missing key raises \<^verbatim>\<open>KeyError\<close>.\<close>

definition lookup2 :: "texts \<Rightarrow> string \<Rightarrow> string \<Rightarrow> exn + string" where
  "lookup2 t sec key =
     (case t sec of
        None \<Rightarrow> Inl (KeyError sec)
      | Some d \<Rightarrow> (case d key of None \<Rightarrow> Inl (KeyError key) | Some v \<Rightarrow> Inr v))"

text \<open>\<^verbatim>\<open>str(x)\<close> of an optional string, as an f-string renders it.\<close>

definition py_str :: "string option \<Rightarrow> string" where
  "py_str x = (case x of None \<Rightarrow> ''None'' | Some v \<Rightarrow> v)"

definition prepend :: "string \<Rightarrow> exn + string \<Rightarrow> exn + string" where
  "prepend p r = (case r of Inl e \<Rightarrow> Inl e | Inr v \<Rightarrow> Inr (p @ v))"

definition is_digit :: "char \<Rightarrow> bool" where
  "is_digit c = (c \<in> set ''0123456789'')"

text \<open>
  The number an all-digit field name stands for, and the largest index \<^verbatim>\<open>str.format\<close>
  accepts (\<^verbatim>\<open>PY_SSIZE_T_MAX\<close> on a 64-bit build): beyond it the name is a
  \<^verbatim>\<open>ValueError\<close>.
\<close>

definition digits_value :: "string \<Rightarrow> nat" where
  "digits_value name = foldl (\<lambda>a d. 10 * a + (of_char d - 48)) 0 name"

definition PY_SSIZE_T_MAX :: nat where
  "PY_SSIZE_T_MAX = 9223372036854775807"

text \<open>
  What a replacement field that is only a name stands for, with keyword arguments only.
  An empty or numeric name asks for a positional argument and there is none. The value
  of a name with an attribute or an index (\<^verbatim>\<open>.\<close>, \<^verbatim>\<open>[\<close>) is not computed here: it
  is whatever \<open>ext\<close> answers, a text or an exception.
\<close>

definition field_value ::
  "(string \<Rightarrow> (string \<rightharpoonup> string) \<Rightarrow> exn + string) \<Rightarrow> (string \<rightharpoonup> string) \<Rightarrow> string \<Rightarrow>
   exn + string" where
  "field_value ext kw name =
     (if set name \<inter> set ''!:.['' \<noteq> {} then ext name kw
      else if list_all is_digit name then
        (if PY_SSIZE_T_MAX < digits_value name then Inl ValueError else Inl IndexError)
      else (case kw name of None \<Rightarrow> Inl (KeyError name) | Some v \<Rightarrow> Inr v))"

text \<open>
  \<^verbatim>\<open>template.format(**kw)\<close>, as the parser of CPython reads a template: \<^verbatim>\<open>{{\<close> and
  \<^verbatim>\<open>}}\<close> are literal braces and a single brace is a \<^verbatim>\<open>ValueError\<close>. After an opening
  brace \<open>format_field\<close> reads the field name: it ends at \<^verbatim>\<open>}\<close>, at \<^verbatim>\<open>:\<close> or at \<^verbatim>\<open>!\<close>, a
  \<^verbatim>\<open>{\<close> in it is a \<^verbatim>\<open>ValueError\<close>, and after \<^verbatim>\<open>[\<close> everything up to \<^verbatim>\<open>]\<close> belongs to
  the name (\<open>format_index\<close>). A conversion is one character after \<^verbatim>\<open>!\<close>, followed by
  \<^verbatim>\<open>}\<close> or \<^verbatim>\<open>:\<close>. A format specification (\<open>format_spec\<close>) runs to the brace that
  closes the field, counting the braces nested in it. A field that is only a name is
  replaced by the argument of that name (the value is not scanned again); the value of
  a field with a conversion or a specification is asked of \<open>ext\<close>, with the text between
  the braces. The string argument before the template is that text as read so far,
  reversed.
\<close>

fun py_format ::
    "(string \<Rightarrow> (string \<rightharpoonup> string) \<Rightarrow> exn + string) \<Rightarrow> (string \<rightharpoonup> string) \<Rightarrow> string \<Rightarrow>
     exn + string"
  and format_field ::
    "(string \<Rightarrow> (string \<rightharpoonup> string) \<Rightarrow> exn + string) \<Rightarrow> (string \<rightharpoonup> string) \<Rightarrow> string \<Rightarrow>
     string \<Rightarrow> exn + string"
  and format_index ::
    "(string \<Rightarrow> (string \<rightharpoonup> string) \<Rightarrow> exn + string) \<Rightarrow> (string \<rightharpoonup> string) \<Rightarrow> string \<Rightarrow>
     string \<Rightarrow> exn + string"
  and format_spec ::
    "(string \<Rightarrow> (string \<rightharpoonup> string) \<Rightarrow> exn + string) \<Rightarrow> (string \<rightharpoonup> string) \<Rightarrow> string \<Rightarrow>
     nat \<Rightarrow> string \<Rightarrow> exn + string" where
  "py_format ext kw [] = Inr []"
| "py_format ext kw (c # cs) =
     (if c = CHR ''{'' then
        (case cs of
           [] \<Rightarrow> Inl ValueError
         | d # ds \<Rightarrow> if d = CHR ''{'' then prepend ''{'' (py_format ext kw ds)
                    else format_field ext kw [] cs)
      else if c = CHR ''}'' then
        (case cs of
           [] \<Rightarrow> Inl ValueError
         | d # ds \<Rightarrow> if d = CHR ''}'' then prepend ''}'' (py_format ext kw ds)
                    else Inl ValueError)
      else prepend [c] (py_format ext kw cs))"
| "format_field ext kw acc [] = Inl ValueError"
| "format_field ext kw acc (c # cs) =
     (if c = CHR ''{'' then Inl ValueError
      else if c = CHR ''}'' then
        (case field_value ext kw (rev acc) of
           Inl e \<Rightarrow> Inl e
         | Inr v \<Rightarrow> prepend v (py_format ext kw cs))
      else if c = CHR '':'' then format_spec ext kw (c # acc) 1 cs
      else if c = CHR ''!'' then
        (case cs of
           [] \<Rightarrow> Inl ValueError
         | conversion # rest \<Rightarrow>
             (case rest of
                [] \<Rightarrow> Inl ValueError
              | d # ds \<Rightarrow>
                  if d = CHR ''}'' then
                    (case ext (rev (conversion # c # acc)) kw of
                       Inl e \<Rightarrow> Inl e
                     | Inr v \<Rightarrow> prepend v (py_format ext kw ds))
                  else if d = CHR '':'' then
                    format_spec ext kw (d # conversion # c # acc) 1 ds
                  else Inl ValueError))
      else if c = CHR ''['' then format_index ext kw (c # acc) cs
      else format_field ext kw (c # acc) cs)"
| "format_index ext kw acc [] = Inl ValueError"
| "format_index ext kw acc (c # cs) =
     (if c = CHR '']'' then format_field ext kw (c # acc) cs
      else format_index ext kw (c # acc) cs)"
| "format_spec ext kw acc n [] = Inl ValueError"
| "format_spec ext kw acc n (c # cs) =
     (if c = CHR ''{'' then format_spec ext kw (c # acc) (Suc n) cs
      else if c = CHR ''}'' then
        (if n \<le> 1 then
           (case ext (rev acc) kw of
              Inl e \<Rightarrow> Inl e
            | Inr v \<Rightarrow> prepend v (py_format ext kw cs))
         else format_spec ext kw (c # acc) (n - 1) cs)
      else format_spec ext kw (c # acc) n cs)"

text \<open>\<^verbatim>\<open>str(path)\<close> of an absolute POSIX path.\<close>

definition path_str :: "path \<Rightarrow> string" where
  "path_str p = concat (map (\<lambda>c. ''/'' @ c) p)"

text \<open>
  \<^verbatim>\<open>await update.message.reply_text(text, parse_mode=mode)\<close>. A call without
  \<^verbatim>\<open>parse_mode\<close> is a call with \<^verbatim>\<open>parse_mode=None\<close>: the application is built
  without defaults.
\<close>

definition reply_text :: "world \<Rightarrow> string \<Rightarrow> parse_mode \<Rightarrow> state \<Rightarrow> (exn + unit) \<times> state" where
  "reply_text w t m s =
     (let r = reply_text_result w (now s) t m in
      (case r of None \<Rightarrow> Inr () | Some e \<Rightarrow> Inl e, emit (Reply t m r) s))"

section \<open>The generation-and-delivery routine\<close>

text \<open>Lines 95 to 99: the rich send and its plain retry.\<close>

definition safe_sending_block :: "world \<Rightarrow> string \<Rightarrow> state \<Rightarrow> (exn + unit) \<times> state" where
  "safe_sending_block w full_response s =
     (case reply_text w full_response Markdown s of
        (Inr u, s1) \<Rightarrow> (Inr u, s1)
      | (Inl e, s1) \<Rightarrow>
          reply_text w full_response NoParseMode
            (emit (Log Warning ''Markdown parsing failed, falling back to plain text.'' e) s1))"

text \<open>Lines 72 to 99: the body of the outer \<^verbatim>\<open>try\<close>.\<close>

definition generate_try_block :: "world \<Rightarrow> config \<Rightarrow> string \<Rightarrow> state \<Rightarrow> (exn + unit) \<times> state" where
  "generate_try_block w c user_text s =
     (case lookup2 (TEXTS c) ''prompts'' ''user_input_wrapper'' of
        Inl e \<Rightarrow> (Inl e, s)
      | Inr template \<Rightarrow>
     (case py_format (extended_field w) [''user_input'' \<mapsto> user_text] template of
        Inl e \<Rightarrow> (Inl e, s)
      | Inr wrapped_input \<Rightarrow>
     (case lookup2 (TEXTS c) ''prompts'' ''system_prompt'' of
        Inl e \<Rightarrow> (Inl e, s)
      | Inr system_prompt \<Rightarrow>
     (let req = \<lparr>messages = [(''system'', system_prompt), (''user'', wrapped_input)],
                 model = ''llama-3.3-70b-versatile'',
                 temperature = 7 / 10\<rparr>;
          chat_completion = completion_result w (now s) req;
          s1 = emit (Complete req chat_completion) s
      in
     (case chat_completion of
        Inl e \<Rightarrow> (Inl e, s1)
      | Inr choices \<Rightarrow>
     (case choices of
        [] \<Rightarrow> (Inl IndexError, s1)
      | analysis # _ \<Rightarrow>
     (case lookup2 (TEXTS c) ''messages'' ''footer_disclaimer'' of
        Inl e \<Rightarrow> (Inl e, s1)
      | Inr footer \<Rightarrow> safe_sending_block w (py_str analysis @ footer) s1)))))))"

text \<open>Lines 65 to 103: the outer \<^verbatim>\<open>except\<close> logs and sends the generic error text.\<close>

definition generate_jungian_response :: "world \<Rightarrow> config \<Rightarrow> string \<Rightarrow> state \<Rightarrow> (exn + unit) \<times> state" where
  "generate_jungian_response w c user_text s =
     (case generate_try_block w c user_text s of
        (Inr u, s1) \<Rightarrow> (Inr u, s1)
      | (Inl e, s1) \<Rightarrow>
          (let s2 = emit (Log Error ''LLM Generation Error'' e) s1 in
           (case lookup2 (TEXTS c) ''errors'' ''generic_error'' of
              Inl e' \<Rightarrow> (Inl e', s2)
            | Inr t \<Rightarrow> reply_text w t NoParseMode s2)))"

section \<open>The handlers\<close>

text \<open>Lines 107 to 113: the two commands send one bundle text each, in rich mode.\<close>

definition start_command :: "world \<Rightarrow> config \<Rightarrow> update \<Rightarrow> state \<Rightarrow> (exn + unit) \<times> state" where
  "start_command w c u s =
     (case lookup2 (TEXTS c) ''messages'' ''welcome'' of
        Inl e \<Rightarrow> (Inl e, s)
      | Inr t \<Rightarrow> reply_text w t Markdown s)"

definition privacy_command :: "world \<Rightarrow> config \<Rightarrow> update \<Rightarrow> state \<Rightarrow> (exn + unit) \<times> state" where
  "privacy_command w c u s =
     (case lookup2 (TEXTS c) ''messages'' ''privacy'' of
        Inl e \<Rightarrow> (Inl e, s)
      | Inr t \<Rightarrow> reply_text w t Markdown s)"

text \<open>Line 125.\<close>

definition temp_ogg_path :: "config \<Rightarrow> path" where
  "temp_ogg_path c = BASE_DIR c @ [''temp_voice.ogg'']"

text \<open>
  Lines 129 to 146: download, transcription and the feedback with the transcript. The
  result is \<^verbatim>\<open>transcribed_text\<close>.
\<close>

definition transcribe_voice :: "world \<Rightarrow> config \<Rightarrow> update \<Rightarrow> state \<Rightarrow> (exn + string) \<times> state" where
  "transcribe_voice w c u s =
     (let p = temp_ogg_path c;
          voice_file = get_file_result w (now s) (voice_file_id u);
          s1 = emit (GetFile (voice_file_id u) voice_file) s
      in
     (case voice_file of
        Inl e \<Rightarrow> (Inl e, s1)
      | Inr fh \<Rightarrow>
     (let d = download_result w (now s1) fh;
          s2 = emit (Download fh p d) s1
      in
     (case d of
        DownloadFailed e None \<Rightarrow> (Inl e, s2)
      | DownloadFailed e (Some part) \<Rightarrow> (Inl e, s2\<lparr>files := (files s2)(p \<mapsto> part)\<rparr>)
      | Downloaded b \<Rightarrow>
     (let s3 = s2\<lparr>files := (files s2)(p \<mapsto> b)\<rparr>;
          s4 = emit (OpenRead p (files s3 p)) s3
      in
     (case files s3 p of
        None \<Rightarrow> (Inl FileNotFoundError, s4)
      | Some content \<Rightarrow>
     (let req = \<lparr>file_name = path_str p, file_bytes = content,
                 whisper_model = ''whisper-large-v3'', language = ''it'',
                 response_format = ''json''\<rparr>;
          transcription = transcription_result w (now s4) req;
          s5 = emit (Transcribe req transcription) s4
      in
     (case transcription of
        Inl e \<Rightarrow> (Inl e, s5)
      | Inr transcribed_text \<Rightarrow>
     (case lookup2 (TEXTS c) ''messages'' ''transcription_done'' of
        Inl e \<Rightarrow> (Inl e, s5)
      | Inr template \<Rightarrow>
     (case py_format (extended_field w) [''text'' \<mapsto> transcribed_text] template of
        Inl e \<Rightarrow> (Inl e, s5)
      | Inr feedback_msg \<Rightarrow>
     (case reply_text w feedback_msg Markdown s5 of
        (Inl e, s6) \<Rightarrow> (Inl e, s6)
      | (Inr _, s6) \<Rightarrow> (Inr transcribed_text, s6))))))))))))"

text \<open>Lines 127 to 149: the body of the \<^verbatim>\<open>try\<close>.\<close>

definition voice_try_block :: "world \<Rightarrow> config \<Rightarrow> update \<Rightarrow> state \<Rightarrow> (exn + unit) \<times> state" where
  "voice_try_block w c u s =
     (case transcribe_voice w c u s of
        (Inl e, s1) \<Rightarrow> (Inl e, s1)
      | (Inr transcribed_text, s1) \<Rightarrow> generate_jungian_response w c transcribed_text s1)"

text \<open>Lines 151 to 153: the \<^verbatim>\<open>except\<close> clause.\<close>

definition voice_except :: "world \<Rightarrow> config \<Rightarrow> exn \<Rightarrow> state \<Rightarrow> (exn + unit) \<times> state" where
  "voice_except w c e s =
     (let s1 = emit (Log Error ''Audio Processing Error'' e) s in
      (case lookup2 (TEXTS c) ''errors'' ''audio_error'' of
         Inl e' \<Rightarrow> (Inl e', s1)
       | Inr t \<Rightarrow> reply_text w t NoParseMode s1))"

text \<open>Lines 155 to 158: the \<^verbatim>\<open>finally\<close> clause.\<close>

definition voice_finally :: "config \<Rightarrow> state \<Rightarrow> state" where
  "voice_finally c s =
     (let p = temp_ogg_path c in
      if files s p \<noteq> None then emit (Remove p) (s\<lparr>files := (files s)(p := None)\<rparr>) else s)"

text \<open>
  Lines 115 to 158. The first reply is outside the \<^verbatim>\<open>try\<close>: when it raises, neither
  the \<^verbatim>\<open>except\<close> nor the \<^verbatim>\<open>finally\<close> clause runs.
\<close>

definition handle_voice_message :: "world \<Rightarrow> config \<Rightarrow> update \<Rightarrow> state \<Rightarrow> (exn + unit) \<times> state" where
  "handle_voice_message w c u s =
     (case lookup2 (TEXTS c) ''messages'' ''processing_audio'' of
        Inl e \<Rightarrow> (Inl e, s)
      | Inr t \<Rightarrow>
     (case reply_text w t NoParseMode s of
        (Inl e, s1) \<Rightarrow> (Inl e, s1)
      | (Inr _, s1) \<Rightarrow>
     (case voice_try_block w c u s1 of
        (Inr r, s2) \<Rightarrow> (Inr r, voice_finally c s2)
      | (Inl e, s2) \<Rightarrow>
          (case voice_except w c e s2 of (r, s3) \<Rightarrow> (r, voice_finally c s3)))))"

text \<open>Lines 160 to 166.\<close>

definition handle_text_message :: "world \<Rightarrow> config \<Rightarrow> update \<Rightarrow> state \<Rightarrow> (exn + unit) \<times> state" where
  "handle_text_message w c u s =
     (let r = send_chat_action_result w (now s) (chat_id u) ''typing'';
          s1 = emit (ChatAction (chat_id u) ''typing'' r) s
      in
     (case r of
        Some e \<Rightarrow> (Inl e, s1)
      | None \<Rightarrow> generate_jungian_response w c (message_text u) s1))"

section \<open>Startup\<close>

text \<open>
  What the module reads when it is imported: the two secrets and the resource file,
  which is absent, not JSON, or a parsed bundle.
\<close>

datatype resource_file = NoFile | NotJson | Json texts

record environment =
  TELEGRAM_TOKEN :: "string option"
  GROQ_API_KEY :: "string option"
  resources :: resource_file

text \<open>Lines 48 to 58: both exceptions are logged and raised again.\<close>

definition load_texts :: "resource_file \<Rightarrow> exn + texts" where
  "load_texts f =
     (case f of
        NoFile \<Rightarrow> Inl FileNotFoundError
      | NotJson \<Rightarrow> Inl JSONDecodeError
      | Json t \<Rightarrow> Inr t)"

text \<open>\<^verbatim>\<open>not x\<close> for an optional string: \<^verbatim>\<open>None\<close> and the empty string are false.\<close>

definition falsy :: "string option \<Rightarrow> bool" where
  "falsy x = (case x of None \<Rightarrow> True | Some v \<Rightarrow> v = [])"

text \<open>
  Lines 27 to 61, the module level: the check of the secrets, then \<^verbatim>\<open>TEXTS = load_texts()\<close>.
  A result \<open>Inr t\<close> is a module that loaded: the handlers are then registered and
  polling starts.
\<close>

definition startup :: "environment \<Rightarrow> exn + texts" where
  "startup env =
     (if falsy (TELEGRAM_TOKEN env) \<or> falsy (GROQ_API_KEY env) then Inl ValueError
      else load_texts (resources env))"

section \<open>Observations on a run\<close>

text \<open>The events a run added to the trace: those of \<open>s'\<close> after the ones already in \<open>s\<close>.\<close>

definition new_events :: "state \<Rightarrow> state \<Rightarrow> event list" where
  "new_events s s' = drop (now s) (trace s')"

text \<open>The paths of the file system an event reads, writes or removes.\<close>

definition event_paths :: "event \<Rightarrow> path list" where
  "event_paths ev =
     (case ev of Download _ p _ \<Rightarrow> [p] | OpenRead p _ \<Rightarrow> [p] | Remove p \<Rightarrow> [p] | _ \<Rightarrow> [])"

definition on_temp :: "config \<Rightarrow> event \<Rightarrow> bool" where
  "on_temp c ev = list_all (\<lambda>p. p = temp_ogg_path c) (event_paths ev)"

text \<open>The kinds of events the ordering of a run is stated with.\<close>

definition is_complete :: "event \<Rightarrow> bool" where
  "is_complete ev = (case ev of Complete _ _ \<Rightarrow> True | _ \<Rightarrow> False)"

definition is_transcribe :: "event \<Rightarrow> bool" where
  "is_transcribe ev = (case ev of Transcribe _ _ \<Rightarrow> True | _ \<Rightarrow> False)"

definition is_fetch :: "event \<Rightarrow> bool" where
  "is_fetch ev = (case ev of GetFile _ _ \<Rightarrow> True | Download _ _ _ \<Rightarrow> True | _ \<Rightarrow> False)"

text \<open>The processing-audio feedback was delivered.\<close>

definition feedback_sent :: "config \<Rightarrow> event \<Rightarrow> bool" where
  "feedback_sent c ev =
     (case ev of
        Reply t m r \<Rightarrow>
          lookup2 (TEXTS c) ''messages'' ''processing_audio'' = Inr t \<and> m = NoParseMode \<and> r = None
      | _ \<Rightarrow> False)"

text \<open>The download wrote the whole file; the transcription returned a text.\<close>

definition download_done :: "event \<Rightarrow> bool" where
  "download_done ev = (case ev of Download _ _ (Downloaded _) \<Rightarrow> True | _ \<Rightarrow> False)"

definition transcription_done :: "event \<Rightarrow> bool" where
  "transcription_done ev = (case ev of Transcribe _ (Inr _) \<Rightarrow> True | _ \<Rightarrow> False)"

text \<open>
  \<open>preceded P Q evs\<close>: no event of kind \<open>Q\<close> occurs in \<open>evs\<close> before the first event of
  kind \<open>P\<close>.
\<close>

fun preceded :: "('a \<Rightarrow> bool) \<Rightarrow> ('a \<Rightarrow> bool) \<Rightarrow> 'a list \<Rightarrow> bool" where
  "preceded P Q [] = True"
| "preceded P Q (x # xs) = (P x \<or> (\<not> Q x \<and> preceded P Q xs))"

text \<open>
  \<open>delivers c completion ev\<close>: if \<open>ev\<close> is a rich send, its text is the content of the
  first choice of the call \<open>completion\<close> followed by the disclaimer footer of the bundle.
\<close>

definition delivers :: "config \<Rightarrow> event \<Rightarrow> event \<Rightarrow> bool" where
  "delivers c completion ev =
     (case ev of
        Reply t Markdown r \<Rightarrow>
          (case completion of
             Complete q (Inr (analysis # rest)) \<Rightarrow>
               (case lookup2 (TEXTS c) ''messages'' ''footer_disclaimer'' of
                  Inr footer \<Rightarrow> t = py_str analysis @ footer
                | Inl e \<Rightarrow> False)
           | _ \<Rightarrow> False)
      | _ \<Rightarrow> True)"

text \<open>The events of error handling and cleanup: log lines, plain replies, the removal.\<close>

definition error_handling :: "event \<Rightarrow> bool" where
  "error_handling ev =
     (case ev of
        Log _ _ _ \<Rightarrow> True
      | Reply _ NoParseMode _ \<Rightarrow> True
      | Remove _ \<Rightarrow> True
      | _ \<Rightarrow> False)"

text \<open>\<open>s'\<close> extends the trace of \<open>s\<close> by events that all satisfy \<open>Q\<close>.\<close>

definition grows :: "(event \<Rightarrow> bool) \<Rightarrow> state \<Rightarrow> state \<Rightarrow> bool" where
  "grows Q s s' = (\<exists>evs. trace s' = trace s @ evs \<and> list_all Q evs)"

section \<open>Concrete inputs\<close>

definition demo_texts :: texts where
  "demo_texts =
     [''messages'' \<mapsto>
        [''welcome'' \<mapsto> ''*Benvenuto*'',
         ''privacy'' \<mapsto> ''_Privacy_'',
         ''processing_audio'' \<mapsto> ''Ascolto...'',
         ''transcription_done'' \<mapsto> ''Hai detto: {text}'',
         ''footer_disclaimer'' \<mapsto> '' (Nota: non sono un medico.)''],
      ''prompts'' \<mapsto>
        [''system_prompt'' \<mapsto> ''Sei un analista junghiano.'',
         ''user_input_wrapper'' \<mapsto> ''Sogno: {user_input}''],
      ''errors'' \<mapsto>
        [''generic_error'' \<mapsto> ''Errore.'',
         ''audio_error'' \<mapsto> ''Audio non valido.'']]"

definition demo_config :: config where
  "demo_config = \<lparr>BASE_DIR = [''srv'', ''bot''], TEXTS = demo_texts\<rparr>"

definition demo_update :: update where
  "demo_update =
     \<lparr>chat_id = 42, message_text = ''Ho fatto un sogno strano'', voice_file_id = ''v1''\<rparr>"

definition other_update :: update where
  "other_update = \<lparr>chat_id = 7, message_text = ''Volavo'', voice_file_id = ''v2''\<rparr>"

text \<open>A world in which every collaborator answers.\<close>

definition world_ok :: world where
  "world_ok =
     \<lparr>reply_text_result = (\<lambda>n t m. None),
      send_chat_action_result = (\<lambda>n i a. None),
      get_file_result = (\<lambda>n fid. Inr (''voice/'' @ fid)),
      download_result = (\<lambda>n fh. Downloaded ''OggS''),
      transcription_result = (\<lambda>n q. Inr ''Ho sognato il mare''),
      completion_result = (\<lambda>n q. Inr [Some ''Il mare e l inconscio.'']),
      extended_field = (\<lambda>name kw. Inl ValueError)\<rparr>"

definition world_transcription_fails :: world where
  "world_transcription_fails =
     world_ok\<lparr>transcription_result := (\<lambda>n q. Inl (ProviderError ''whisper''))\<rparr>"

text \<open>A transport that rejects every rich send and accepts every plain one.\<close>

definition world_markdown_rejected :: world where
  "world_markdown_rejected =
     world_ok\<lparr>reply_text_result :=
       (\<lambda>n t m. if m = Markdown then Some (TransportError ''can not parse entities'') else None)\<rparr>"

text \<open>A transport that rejects a long message in either mode.\<close>

definition world_message_too_long :: world where
  "world_message_too_long =
     world_ok\<lparr>reply_text_result :=
       (\<lambda>n t m. if 40 < length t then Some (TransportError ''message is too long'') else None)\<rparr>"

text \<open>A transport on which no reply gets through.\<close>

definition world_replies_fail :: world where
  "world_replies_fail =
     world_ok\<lparr>reply_text_result := (\<lambda>n t m. Some (TransportError ''timed out''))\<rparr>"

text \<open>The typing indicator cannot be emitted.\<close>

definition world_typing_fails :: world where
  "world_typing_fails =
     world_ok\<lparr>send_chat_action_result := (\<lambda>n i a. Some (TransportError ''timed out''))\<rparr>"

text \<open>The download breaks off and leaves a partial file.\<close>

definition world_download_fails :: world where
  "world_download_fails =
     world_ok\<lparr>download_result :=
       (\<lambda>n fh. DownloadFailed (TransportError ''connection reset'') (Some ''Og''))\<rparr>"

text \<open>A bundle without the welcome text, and an environment that offers it.\<close>

definition texts_without_welcome :: texts where
  "texts_without_welcome =
     demo_texts(''messages'' \<mapsto>
        [''privacy'' \<mapsto> ''_Privacy_'',
         ''processing_audio'' \<mapsto> ''Ascolto...'',
         ''transcription_done'' \<mapsto> ''Hai detto: {text}'',
         ''footer_disclaimer'' \<mapsto> '' (Nota: non sono un medico.)''])"

definition env_without_welcome :: environment where
  "env_without_welcome =
     \<lparr>TELEGRAM_TOKEN = Some ''123:abc'', GROQ_API_KEY = Some ''gsk_abc'',
      resources = Json texts_without_welcome\<rparr>"

definition empty_state :: state where
  "empty_state = \<lparr>files = Map.empty, trace = []\<rparr>"

text \<open>A state in which a file is already at the temporary path.\<close>

definition stale_state :: state where
  "stale_state =
     \<lparr>files = Map.empty([''srv'', ''bot'', ''temp_voice.ogg''] \<mapsto> ''old''), trace = []\<rparr>"

section \<open>Basic facts\<close>

lemmas demo_defs = demo_texts_def demo_config_def demo_update_def other_update_def world_ok_def
  world_transcription_fails_def world_markdown_rejected_def world_message_too_long_def
  world_replies_fail_def world_typing_fails_def world_download_fails_def
  texts_without_welcome_def env_without_welcome_def empty_state_def stale_state_def

lemmas model_defs = handle_voice_message_def voice_try_block_def transcribe_voice_def
  voice_except_def voice_finally_def generate_jungian_response_def generate_try_block_def
  safe_sending_block_def reply_text_def handle_text_message_def start_command_def
  privacy_command_def lookup2_def temp_ogg_path_def emit_def now_def Let_def
  field_value_def prepend_def py_str_def path_str_def is_digit_def new_events_def
  digits_value_def PY_SSIZE_T_MAX_def

lemma trace_emit [simp]: "trace (emit ev s) = trace s @ [ev]"
  by (simp add: emit_def)

lemma files_emit [simp]: "files (emit ev s) = files s"
  by (simp add: emit_def)

lemma now_emit [simp]: "now (emit ev s) = Suc (now s)"
  by (simp add: now_def)

lemma now_files_update [simp]: "now (s\<lparr>files := f\<rparr>) = now s"
  by (simp add: now_def)

lemma snd_reply_text [simp]:
  "snd (reply_text w t m s) = emit (Reply t m (reply_text_result w (now s) t m)) s"
  by (simp add: reply_text_def Let_def)

lemma fst_reply_text [simp]:
  "fst (reply_text w t m s) =
     (case reply_text_result w (now s) t m of None \<Rightarrow> Inr () | Some e \<Rightarrow> Inl e)"
  by (simp add: reply_text_def Let_def)

lemma reply_text_eq:
  "reply_text w t m s = (r, s') \<longleftrightarrow>
     r = (case reply_text_result w (now s) t m of None \<Rightarrow> Inr () | Some e \<Rightarrow> Inl e) \<and>
     s' = emit (Reply t m (reply_text_result w (now s) t m)) s"
  by (auto simp: reply_text_def Let_def)

lemma voice_finally_removes [simp]: "files (voice_finally c s) (temp_ogg_path c) = None"
  by (simp add: voice_finally_def Let_def)

subsection \<open>Traces only grow\<close>

lemma grows_refl [simp]: "grows Q s s"
  by (simp add: grows_def)

lemma grows_emit: "Q ev \<Longrightarrow> grows Q s s1 \<Longrightarrow> grows Q s (emit ev s1)"
  by (auto simp: grows_def)

lemma grows_files [simp]: "grows Q s (s1\<lparr>files := f\<rparr>) = grows Q s s1"
  by (simp add: grows_def)

lemma grows_new_events: "grows Q s s' \<Longrightarrow> ev \<in> set (new_events s s') \<Longrightarrow> Q ev"
  by (auto simp: grows_def new_events_def now_def list_all_iff)

lemma grows_all_new: "grows Q s s' \<Longrightarrow> list_all Q (new_events s s')"
  by (auto simp: grows_def new_events_def now_def)

text \<open>
  An invariant of the events that holds for every event a block can emit is kept by
  the block. \<open>Q\<close> is assumed for the events of each kind the block emits.
\<close>

lemma safe_sending_grows:
  assumes "\<And>t m r. Q (Reply t m r)" "\<And>l msg e. Q (Log l msg e)" "grows Q s s1"
  shows "grows Q s (snd (safe_sending_block w full s1))"
  using assms
  by (auto simp: safe_sending_block_def reply_text_eq grows_emit
           split: sum.splits prod.splits option.splits)

lemma generate_try_grows:
  assumes "\<And>t m r. Q (Reply t m r)" "\<And>l msg e. Q (Log l msg e)" "\<And>q r. Q (Complete q r)"
    "grows Q s s1"
  shows "grows Q s (snd (generate_try_block w c body s1))"
  using assms
  by (auto simp: generate_try_block_def Let_def grows_emit safe_sending_grows
           split: sum.splits list.splits)

lemma generate_grows:
  assumes "\<And>t m r. Q (Reply t m r)" "\<And>l msg e. Q (Log l msg e)" "\<And>q r. Q (Complete q r)"
    "grows Q s s1"
  shows "grows Q s (snd (generate_jungian_response w c body s1))"
  using generate_try_grows [of Q s s1 w c body, OF assms] assms(1,2)
  by (auto simp: generate_jungian_response_def Let_def grows_emit split: sum.splits prod.splits)

lemma transcribe_voice_grows:
  assumes "\<And>t m r. Q (Reply t m r)" "\<And>f r. Q (GetFile f r)"
    "\<And>h d. Q (Download h (temp_ogg_path c) d)" "\<And>b. Q (OpenRead (temp_ogg_path c) b)"
    "\<And>q r. Q (Transcribe q r)" "grows Q s s1"
  shows "grows Q s (snd (transcribe_voice w c u s1))"
  using assms
  by (auto simp: transcribe_voice_def Let_def grows_emit reply_text_eq
           split: sum.splits prod.splits download_outcome.splits option.splits)

lemma voice_except_grows:
  assumes "\<And>t r. Q (Reply t NoParseMode r)" "\<And>l msg e. Q (Log l msg e)" "grows Q s s1"
  shows "grows Q s (snd (voice_except w c e s1))"
  using assms
  by (auto simp: voice_except_def Let_def grows_emit split: sum.splits)

lemma voice_finally_grows:
  assumes "Q (Remove (temp_ogg_path c))" "grows Q s s1"
  shows "grows Q s (voice_finally c s1)"
  using assms by (auto simp: voice_finally_def Let_def grows_emit)

lemma on_temp_simps [simp]:
  "on_temp c (Reply t m r)" "on_temp c (ChatAction i a r)" "on_temp c (GetFile f g)"
  "on_temp c (Download h p d) = (p = temp_ogg_path c)"
  "on_temp c (OpenRead p b) = (p = temp_ogg_path c)"
  "on_temp c (Transcribe q tr)" "on_temp c (Complete cq cr)"
  "on_temp c (Remove p) = (p = temp_ogg_path c)" "on_temp c (Log l msg e)"
  by (simp_all add: on_temp_def event_paths_def)

lemma voice_try_on_temp:
  assumes "grows (on_temp c) s s1"
  shows "grows (on_temp c) s (snd (voice_try_block w c u s1))"
proof -
  obtain r s2 where t: "transcribe_voice w c u s1 = (r, s2)"
    by (cases "transcribe_voice w c u s1")
  have g: "grows (on_temp c) s s2"
    using transcribe_voice_grows [of "on_temp c" c s s1 w u] assms t by simp
  show ?thesis
  proof (cases r)
    case (Inl e)
    with t g show ?thesis by (simp add: voice_try_block_def)
  next
    case (Inr transcribed_text)
    with t generate_grows [of "on_temp c" s s2 w c transcribed_text] g show ?thesis
      by (simp add: voice_try_block_def)
  qed
qed

lemma handle_voice_on_temp: "grows (on_temp c) s (snd (handle_voice_message w c u s))"
proof (cases "lookup2 (TEXTS c) ''messages'' ''processing_audio''")
  case (Inl e)
  then show ?thesis by (simp add: handle_voice_message_def)
next
  case (Inr t)
  note key = Inr
  let ?s1 = "snd (reply_text w t NoParseMode s)"
  have g1: "grows (on_temp c) s ?s1" by (simp add: grows_emit)
  show ?thesis
  proof (cases "reply_text_result w (now s) t NoParseMode")
    case (Some e)
    with key g1 show ?thesis
      by (simp add: handle_voice_message_def reply_text_def Let_def grows_emit)
  next
    case None
    obtain r2 s2 where b: "voice_try_block w c u ?s1 = (r2, s2)"
      by (cases "voice_try_block w c u ?s1")
    have g2: "grows (on_temp c) s s2"
      using voice_try_on_temp [OF g1, of w u] b by simp
    show ?thesis
    proof (cases r2)
      case (Inl e)
      obtain r3 s3 where x: "voice_except w c e s2 = (r3, s3)"
        by (cases "voice_except w c e s2")
      have "grows (on_temp c) s s3"
        using voice_except_grows [of "on_temp c" s s2 w c e] g2 x by simp
      then have "grows (on_temp c) s (voice_finally c s3)"
        by (simp add: voice_finally_grows)
      with key None b Inl x show ?thesis
        by (simp add: handle_voice_message_def reply_text_def Let_def)
    next
      case (Inr u')
      have "grows (on_temp c) s (voice_finally c s2)"
        using g2 by (simp add: voice_finally_grows)
      with key None b Inr show ?thesis
        by (simp add: handle_voice_message_def reply_text_def Let_def)
    qed
  qed
qed

subsection \<open>The events of a run\<close>

lemma new_events_same [simp]: "new_events s s = []"
  by (simp add: new_events_def now_def)

lemma new_events_emit [simp]: "new_events s (emit a s') = new_events s s' @ [a]" if "now s \<le> now s'"
  using that by (simp add: new_events_def now_def)

lemma safe_sending_block_eq:
  "safe_sending_block w full s =
     (case reply_text_result w (now s) full Markdown of
        None \<Rightarrow> (Inr (), emit (Reply full Markdown None) s)
      | Some e \<Rightarrow>
          (case reply_text_result w (now s + 2) full NoParseMode of
             None \<Rightarrow> Inr ()
           | Some e2 \<Rightarrow> Inl e2,
           emit (Reply full NoParseMode (reply_text_result w (now s + 2) full NoParseMode))
             (emit (Log Warning ''Markdown parsing failed, falling back to plain text.'' e)
               (emit (Reply full Markdown (Some e)) s))))"
  by (simp add: safe_sending_block_def reply_text_def Let_def split: option.splits)

lemma generate_try_disj:
  "(\<exists>e. generate_try_block w c body s = (Inl e, s)) \<or>
   (\<exists>e q cr. generate_try_block w c body s = (Inl e, emit (Complete q cr) s)) \<or>
   (\<exists>q a rest footer.
      lookup2 (TEXTS c) ''messages'' ''footer_disclaimer'' = Inr footer \<and>
      generate_try_block w c body s =
        safe_sending_block w (py_str a @ footer) (emit (Complete q (Inr (a # rest))) s))"
  by (simp add: generate_try_block_def Let_def split: sum.splits list.splits) blast

lemma generate_try_cases:
  obtains (early) e where "generate_try_block w c body s = (Inl e, s)"
  | (completion) e q cr where "generate_try_block w c body s = (Inl e, emit (Complete q cr) s)"
  | (send) q a rest footer where
      "lookup2 (TEXTS c) ''messages'' ''footer_disclaimer'' = Inr footer"
      "generate_try_block w c body s =
         safe_sending_block w (py_str a @ footer) (emit (Complete q (Inr (a # rest))) s)"
  using generate_try_disj [of w c body s] by blast

lemma generate_after_failure:
  "generate_try_block w c body s = (Inl e, s1) \<Longrightarrow>
   generate_jungian_response w c body s =
     (case lookup2 (TEXTS c) ''errors'' ''generic_error'' of
        Inl k \<Rightarrow> (Inl k, emit (Log Error ''LLM Generation Error'' e) s1)
      | Inr g \<Rightarrow>
          (case reply_text_result w (Suc (now s1)) g NoParseMode of
             None \<Rightarrow> Inr ()
           | Some e3 \<Rightarrow> Inl e3,
           emit (Reply g NoParseMode (reply_text_result w (Suc (now s1)) g NoParseMode))
             (emit (Log Error ''LLM Generation Error'' e) s1)))"
  by (simp add: generate_jungian_response_def reply_text_def Let_def split: sum.splits)

lemma generate_after_success:
  "generate_try_block w c body s = (Inr v, s1) \<Longrightarrow>
   generate_jungian_response w c body s = (Inr v, s1)"
  by (simp add: generate_jungian_response_def)

subsection \<open>Formatting\<close>

lemma prepend_Inr [simp]: "prepend p (Inr v) = Inr (p @ v)"
  by (simp add: prepend_def)

lemma prepend_Inl [simp]: "prepend p (Inl e) = Inl e"
  by (simp add: prepend_def)

lemma prepend_prepend [simp]: "prepend p (prepend q r) = prepend (p @ q) r"
  by (cases r) simp_all

lemma prepend_Nil [simp]: "prepend [] r = r"
  by (cases r) simp_all

lemma py_format_literal:
  "CHR ''{'' \<notin> set xs \<Longrightarrow> CHR ''}'' \<notin> set xs \<Longrightarrow>
   py_format ext kw (xs @ ys) = prepend xs (py_format ext kw ys)"
  by (induction xs) auto

lemma py_format_wrapper:
  assumes "CHR ''{'' \<notin> set pre" "CHR ''}'' \<notin> set pre"
    "CHR ''{'' \<notin> set post" "CHR ''}'' \<notin> set post"
  shows "py_format ext [''user_input'' \<mapsto> body] (pre @ ''{user_input}'' @ post) =
           Inr (pre @ body @ post)"
proof -
  have "py_format ext [''user_input'' \<mapsto> body] post = Inr post"
    using py_format_literal [OF assms(3,4), of ext "[''user_input'' \<mapsto> body]" "[]"] by simp
  then show ?thesis
    by (simp add: py_format_literal [OF assms(1,2)] field_value_def is_digit_def)
qed

subsection \<open>The paths through the voice handler\<close>

lemma transcribe_voice_disj:
  "(\<exists>e. transcribe_voice w c u s = (Inl e, emit (GetFile (voice_file_id u) (Inl e)) s)) \<or>
   (\<exists>e fh part s'. transcribe_voice w c u s = (Inl e, s') \<and>
      trace s' = trace s @ [GetFile (voice_file_id u) (Inr fh),
                            Download fh (temp_ogg_path c) (DownloadFailed e part)] \<and>
      files s' = (case part of None \<Rightarrow> files s | Some b \<Rightarrow> (files s)(temp_ogg_path c \<mapsto> b))) \<or>
   (\<exists>e fh b q r s'. transcribe_voice w c u s = (Inl e, s') \<and>
      trace s' = trace s @ [GetFile (voice_file_id u) (Inr fh),
                            Download fh (temp_ogg_path c) (Downloaded b),
                            OpenRead (temp_ogg_path c) (Some b), Transcribe q r] \<and>
      files s' = (files s)(temp_ogg_path c \<mapsto> b)) \<or>
   (\<exists>fh b q transcribed_text fb r s'.
      transcribe_voice w c u s =
        (case r of None \<Rightarrow> Inr transcribed_text | Some e \<Rightarrow> Inl e, s') \<and>
      trace s' = trace s @ [GetFile (voice_file_id u) (Inr fh),
                            Download fh (temp_ogg_path c) (Downloaded b),
                            OpenRead (temp_ogg_path c) (Some b),
                            Transcribe q (Inr transcribed_text), Reply fb Markdown r] \<and>
      files s' = (files s)(temp_ogg_path c \<mapsto> b))"
  by (simp add: transcribe_voice_def Let_def reply_text_def
      split: sum.splits download_outcome.splits option.splits)

lemma handle_voice_entered:
  assumes "lookup2 (TEXTS c) ''messages'' ''processing_audio'' = Inr t0"
    and "reply_text_result w (now s) t0 NoParseMode = None"
  shows "handle_voice_message w c u s =
     (case voice_try_block w c u (emit (Reply t0 NoParseMode None) s) of
        (Inr r, s2) \<Rightarrow> (Inr r, voice_finally c s2)
      | (Inl e, s2) \<Rightarrow> (case voice_except w c e s2 of (r, s3) \<Rightarrow> (r, voice_finally c s3)))"
  using assms by (simp add: handle_voice_message_def reply_text_def Let_def)

lemma new_events_grows: "grows Q s1 s2 \<Longrightarrow> now s \<le> now s1 \<Longrightarrow>
  new_events s s2 = new_events s s1 @ new_events s1 s2"
  by (auto simp: grows_def new_events_def now_def)

lemma grows_now: "grows Q s s' \<Longrightarrow> now s \<le> now s'"
  by (auto simp: grows_def now_def)

lemma new_events_files [simp]: "new_events s (s'\<lparr>files := f\<rparr>) = new_events s s'"
  by (simp add: new_events_def)

lemma new_events_finally:
  assumes "now s \<le> now s'"
  shows "new_events s (voice_finally c s') =
     new_events s s' @ (if files s' (temp_ogg_path c) = None then [] else [Remove (temp_ogg_path c)])"
  using assms by (simp add: voice_finally_def Let_def)

lemma is_complete_simps [simp]:
  "\<not> is_complete (Reply t m r)" "\<not> is_complete (ChatAction i a r)" "\<not> is_complete (GetFile f g)"
  "\<not> is_complete (Download h p d)" "\<not> is_complete (OpenRead p b)"
  "\<not> is_complete (Transcribe q tr)" "is_complete (Complete cq cr)"
  "\<not> is_complete (Remove p)" "\<not> is_complete (Log l msg e)"
  by (simp_all add: is_complete_def)

lemma handle_voice_failure:
  assumes key: "lookup2 (TEXTS c) ''messages'' ''processing_audio'' = Inr t0"
    and sent: "reply_text_result w (now s) t0 NoParseMode = None"
    and failure: "transcribe_voice w c u (emit (Reply t0 NoParseMode None) s) = (Inl e, s2)"
  shows "new_events s (snd (handle_voice_message w c u s)) =
           Reply t0 NoParseMode None # new_events (emit (Reply t0 NoParseMode None) s) s2 @
           Log Error ''Audio Processing Error'' e #
           (case lookup2 (TEXTS c) ''errors'' ''audio_error'' of
              Inl k \<Rightarrow> []
            | Inr ae \<Rightarrow> [Reply ae NoParseMode (reply_text_result w (Suc (now s2)) ae NoParseMode)]) @
           (if files s2 (temp_ogg_path c) = None then [] else [Remove (temp_ogg_path c)])"
proof -
  let ?s1 = "emit (Reply t0 NoParseMode None) s"
  have g: "grows (\<lambda>ev. True) ?s1 s2"
    using transcribe_voice_grows [of "\<lambda>ev. True" c ?s1 ?s1 w u] failure by simp
  have le: "now s \<le> now s2"
    using grows_now [OF g] by simp
  have ev2: "new_events s s2 = Reply t0 NoParseMode None # new_events ?s1 s2"
    using new_events_grows [OF g, of s] by simp
  show ?thesis
    using failure le ev2
    by (simp add: handle_voice_entered [OF key sent] voice_try_block_def voice_except_def
          reply_text_def Let_def new_events_finally split: sum.splits)
qed

subsection \<open>Ordering\<close>

lemma error_handling_simps [simp]:
  "error_handling (Log l msg e)" "error_handling (Reply t NoParseMode r)"
  "error_handling (Remove p)"
  by (simp_all add: error_handling_def)

lemma error_handling_quiet:
  assumes "error_handling ev"
  shows "\<not> is_complete ev" "\<not> is_transcribe ev" "\<not> is_fetch ev" "delivers c d ev"
    "\<not> download_done ev" "\<not> transcription_done ev"
  using assms
  by (auto simp: error_handling_def is_complete_def is_transcribe_def is_fetch_def delivers_def
        download_done_def transcription_done_def split: event.splits parse_mode.splits)

lemma preceded_none: "list_all (\<lambda>ev. \<not> Q ev) evs \<Longrightarrow> preceded P Q evs"
  by (induction evs) auto

lemma dropWhile_none: "list_all (\<lambda>ev. \<not> P ev) evs \<Longrightarrow> dropWhile (\<lambda>ev. \<not> P ev) evs = []"
  by (induction evs) auto

lemma generate_events_shape:
  "\<exists>tail. list_all error_handling tail \<and>
     (new_events s (snd (generate_jungian_response w c body s)) = tail \<or>
      (\<exists>q cr. new_events s (snd (generate_jungian_response w c body s)) = Complete q cr # tail) \<or>
      (\<exists>q a rest footer r.
         lookup2 (TEXTS c) ''messages'' ''footer_disclaimer'' = Inr footer \<and>
         new_events s (snd (generate_jungian_response w c body s)) =
           Complete q (Inr (a # rest)) # Reply (py_str a @ footer) Markdown r # tail))"
proof (cases rule: generate_try_cases [of w c body s])
  case (early e')
  show ?thesis
    by (rule exI [of _ "new_events s (snd (generate_jungian_response w c body s))"])
       (simp add: generate_after_failure [OF early] split: sum.splits)
next
  case (completion e' q cr)
  show ?thesis
    by (rule exI [of _ "tl (new_events s (snd (generate_jungian_response w c body s)))"])
       (simp add: generate_after_failure [OF completion] split: sum.splits)
next
  case (send q a rest footer)
  let ?full = "py_str a @ footer"
  let ?s1 = "emit (Complete q (Inr (a # rest))) s"
  let ?tail = "drop 2 (new_events s (snd (generate_jungian_response w c body s)))"
  have "list_all error_handling ?tail \<and>
        (\<exists>r. new_events s (snd (generate_jungian_response w c body s)) =
           Complete q (Inr (a # rest)) # Reply ?full Markdown r # ?tail)"
  proof (cases "reply_text_result w (Suc (now s)) ?full Markdown")
    case None
    then have g: "generate_try_block w c body s = (Inr (), emit (Reply ?full Markdown None) ?s1)"
      by (simp add: send safe_sending_block_eq)
    show ?thesis
      by (simp add: generate_after_success [OF g])
  next
    case (Some e1)
    note rich = Some
    show ?thesis
    proof (cases "reply_text_result w (Suc (Suc (Suc (now s)))) ?full NoParseMode")
      case None
      with rich have g: "generate_try_block w c body s =
          (Inr (), emit (Reply ?full NoParseMode None)
             (emit (Log Warning ''Markdown parsing failed, falling back to plain text.'' e1)
               (emit (Reply ?full Markdown (Some e1)) ?s1)))"
        by (simp add: send safe_sending_block_eq)
      show ?thesis
        by (simp add: generate_after_success [OF g])
    next
      case (Some e2)
      with rich have g: "generate_try_block w c body s =
          (Inl e2, emit (Reply ?full NoParseMode (Some e2))
             (emit (Log Warning ''Markdown parsing failed, falling back to plain text.'' e1)
               (emit (Reply ?full Markdown (Some e1)) ?s1)))"
        by (simp add: send safe_sending_block_eq)
      show ?thesis
        by (simp add: generate_after_failure [OF g] split: sum.splits)
    qed
  qed
  with send(1) show ?thesis by blast
qed

lemma handle_voice_success:
  assumes key: "lookup2 (TEXTS c) ''messages'' ''processing_audio'' = Inr t0"
    and sent: "reply_text_result w (now s) t0 NoParseMode = None"
    and ok: "transcribe_voice w c u (emit (Reply t0 NoParseMode None) s) = (Inr transcribed_text, s2)"
  shows "\<exists>tail. list_all error_handling tail \<and>
           new_events s (snd (handle_voice_message w c u s)) =
             Reply t0 NoParseMode None # new_events (emit (Reply t0 NoParseMode None) s) s2 @
             new_events s2 (snd (generate_jungian_response w c transcribed_text s2)) @ tail"
proof -
  let ?s1 = "emit (Reply t0 NoParseMode None) s"
  obtain rg s3 where gen: "generate_jungian_response w c transcribed_text s2 = (rg, s3)"
    by (cases "generate_jungian_response w c transcribed_text s2")
  have g1: "grows (\<lambda>ev. True) ?s1 s2"
    using transcribe_voice_grows [of "\<lambda>ev. True" c ?s1 ?s1 w u] ok by simp
  have g2: "grows (\<lambda>ev. True) s2 s3"
    using generate_grows [of "\<lambda>ev. True" s2 s2 w c transcribed_text] gen by simp
  have le2: "now s \<le> now s2" using grows_now [OF g1] by simp
  have le3: "now s \<le> now s3" using grows_now [OF g2] le2 by simp
  have ev2: "new_events s s2 = Reply t0 NoParseMode None # new_events ?s1 s2"
    using new_events_grows [OF g1, of s] by simp
  have ev3: "new_events s s3 = new_events s s2 @ new_events s2 s3"
    using new_events_grows [OF g2 le2] .
  show ?thesis
  proof (cases rg)
    case (Inr v)
    show ?thesis
      by (rule exI [of _ "if files s3 (temp_ogg_path c) = None then [] else [Remove (temp_ogg_path c)]"])
         (use ok gen Inr le3 ev2 ev3 in
           \<open>simp add: handle_voice_entered [OF key sent] voice_try_block_def new_events_finally\<close>)
  next
    case (Inl e)
    obtain rx sx where x: "voice_except w c e s3 = (rx, sx)"
      by (cases "voice_except w c e s3")
    have gx: "grows error_handling s3 sx"
      using voice_except_grows [of error_handling s3 s3 w c e] x by simp
    have lex: "now s \<le> now sx" using grows_now [OF gx] le3 by simp
    have evx: "new_events s sx = new_events s s3 @ new_events s3 sx"
      using new_events_grows [OF gx le3] .
    show ?thesis
      by (rule exI [of _ "new_events s3 sx @
            (if files sx (temp_ogg_path c) = None then [] else [Remove (temp_ogg_path c)])"])
         (use ok gen Inl x lex evx ev2 ev3 grows_all_new [OF gx] in
           \<open>simp add: handle_voice_entered [OF key sent] voice_try_block_def new_events_finally\<close>)
  qed
qed

lemma error_handling_all:
  assumes "list_all error_handling evs"
  shows "list_all (\<lambda>ev. \<not> is_complete ev) evs" "list_all (delivers c d) evs"
  using assms by (auto simp: list_all_iff error_handling_quiet)

lemma classify_simps [simp]:
  "feedback_sent c (Reply t m r) =
     (lookup2 (TEXTS c) ''messages'' ''processing_audio'' = Inr t \<and> m = NoParseMode \<and> r = None)"
  "\<not> is_fetch (Reply t m r)" "is_fetch (GetFile f g)" "is_fetch (Download h p d)"
  "\<not> is_fetch (OpenRead p b)" "\<not> is_fetch (Transcribe q tr)" "\<not> is_fetch (Log l msg e)"
  "\<not> is_fetch (Remove p)" "\<not> is_fetch (Complete cq cr)"
  "\<not> is_transcribe (Reply t m r)" "\<not> is_transcribe (GetFile f g)"
  "\<not> is_transcribe (Download h p d)" "\<not> is_transcribe (OpenRead p b)"
  "is_transcribe (Transcribe q tr)" "\<not> is_transcribe (Log l msg e)"
  "\<not> is_transcribe (Remove p)" "\<not> is_transcribe (Complete cq cr)"
  "download_done (Download h p (Downloaded b'))" "\<not> download_done (Download h p (DownloadFailed e part))"
  "\<not> download_done (Reply t m r)" "\<not> download_done (GetFile f g)"
  "transcription_done (Transcribe q (Inr v))" "\<not> transcription_done (Transcribe q (Inl e))"
  "\<not> transcription_done (Reply t m r)" "\<not> transcription_done (GetFile f g)"
  "\<not> transcription_done (Download h p d)" "\<not> transcription_done (OpenRead p b)"
  by (simp_all add: feedback_sent_def is_fetch_def is_transcribe_def download_done_def
        transcription_done_def)

section \<open>The temporary audio file\<close>

text \<open>
  Claim C1, as the code has it. The first reply (line 122) is before the \<^verbatim>\<open>try\<close> of
  line 127. On every exit path that enters the \<^verbatim>\<open>try\<close>, that is whenever the
  processing feedback is delivered, the \<^verbatim>\<open>finally\<close> clause runs and the temporary
  audio file does not exist after the handler has ended: with the transcription and
  the analysis done, with a failed download, a failed transcription or any exception
  in between, also when the error reply itself raises, and whatever was at the path
  before. When the first reply (or the lookup of its text) raises, the handler ends
  before the \<^verbatim>\<open>try\<close> and leaves the file system as it found it: the file is then
  absent afterwards exactly when it was absent before.
\<close>

theorem voice_temp_file_removed:
  "(files s (temp_ogg_path c) = None \<or>
    (\<exists>t. lookup2 (TEXTS c) ''messages'' ''processing_audio'' = Inr t \<and>
         reply_text_result w (now s) t NoParseMode = None) \<longrightarrow>
    files (snd (handle_voice_message w c u s)) (temp_ogg_path c) = None) \<and>
   (\<not> (\<exists>t. lookup2 (TEXTS c) ''messages'' ''processing_audio'' = Inr t \<and>
          reply_text_result w (now s) t NoParseMode = None) \<longrightarrow>
    files (snd (handle_voice_message w c u s)) = files s)"
  by (auto simp: handle_voice_message_def reply_text_eq
           split: sum.splits prod.splits option.splits)

text \<open>
  A run in which a file is at the path beforehand, the download succeeds and the
  transcription raises: the file is gone afterwards. A run from an empty file system in
  which the first reply raises: the file system is still empty.
\<close>

theorem voice_temp_file_removed_witness:
  "(\<exists>t. lookup2 (TEXTS demo_config) ''messages'' ''processing_audio'' = Inr t \<and>
        reply_text_result world_transcription_fails (now stale_state) t NoParseMode = None) \<and>
   files stale_state (temp_ogg_path demo_config) = Some ''old'' \<and>
   files (snd (handle_voice_message world_transcription_fails demo_config demo_update stale_state))
     (temp_ogg_path demo_config) = None \<and>
   \<not> (\<exists>t. lookup2 (TEXTS demo_config) ''messages'' ''processing_audio'' = Inr t \<and>
          reply_text_result world_replies_fail (now empty_state) t NoParseMode = None) \<and>
   files (snd (handle_voice_message world_replies_fail demo_config demo_update empty_state)) =
     files empty_state"
proof -
  have h: "\<exists>t. lookup2 (TEXTS demo_config) ''messages'' ''processing_audio'' = Inr t \<and>
         reply_text_result world_transcription_fails (now stale_state) t NoParseMode = None"
    by (simp add: demo_defs lookup2_def)
  have o: "files stale_state (temp_ogg_path demo_config) = Some ''old''"
    by (simp add: demo_defs temp_ogg_path_def)
  have n: "\<not> (\<exists>t. lookup2 (TEXTS demo_config) ''messages'' ''processing_audio'' = Inr t \<and>
          reply_text_result world_replies_fail (now empty_state) t NoParseMode = None)"
    by (simp add: demo_defs lookup2_def)
  from voice_temp_file_removed
         [where s = stale_state and c = demo_config and w = world_transcription_fails
            and u = demo_update]
       voice_temp_file_removed
         [where s = empty_state and c = demo_config and w = world_replies_fail
            and u = demo_update]
       h o n
  show ?thesis by blast
qed

text \<open>
  Against the claim as written: a file is at the path beforehand and the first reply
  raises; the handler ends before the \<^verbatim>\<open>try\<close>, and the file is still there.
\<close>

theorem stale_file_survives_failed_feedback:
  "fst (handle_voice_message world_replies_fail demo_config demo_update stale_state) =
     Inl (TransportError ''timed out'') \<and>
   trace (snd (handle_voice_message world_replies_fail demo_config demo_update stale_state)) =
     [Reply ''Ascolto...'' NoParseMode (Some (TransportError ''timed out''))] \<and>
   files (snd (handle_voice_message world_replies_fail demo_config demo_update stale_state))
     (temp_ogg_path demo_config) = Some ''old''"
  by (simp add: model_defs demo_defs)

text \<open>
  Claim C10. Every invocation of the voice handler uses the same temporary path, the
  source directory joined with \<^verbatim>\<open>temp_voice.ogg\<close>, whatever the update and its sender:
  every path that an event of a run reads, writes or removes is that path, so the
  paths of any two runs are identical.
\<close>

theorem voice_temp_path_constant:
  assumes "ev1 \<in> set (new_events s1 (snd (handle_voice_message w1 c u1 s1)))"
    and "p1 \<in> set (event_paths ev1)"
    and "ev2 \<in> set (new_events s2 (snd (handle_voice_message w2 c u2 s2)))"
    and "p2 \<in> set (event_paths ev2)"
  shows "p1 = BASE_DIR c @ [''temp_voice.ogg''] \<and> p2 = p1"
proof -
  have "on_temp c ev1"
    using grows_new_events [OF handle_voice_on_temp assms(1)] .
  moreover have "on_temp c ev2"
    using grows_new_events [OF handle_voice_on_temp assms(3)] .
  ultimately show ?thesis
    using assms(2,4) by (simp add: on_temp_def temp_ogg_path_def list_all_iff)
qed

text \<open>
  Two runs on different updates, from different senders, in different worlds: the
  download of the first and the removal of the second are on the same path.
\<close>

theorem voice_temp_path_constant_witness:
  "Download ''voice/v1'' [''srv'', ''bot'', ''temp_voice.ogg''] (Downloaded ''OggS'')
     \<in> set (new_events empty_state
              (snd (handle_voice_message world_ok demo_config demo_update empty_state))) \<and>
   Remove [''srv'', ''bot'', ''temp_voice.ogg'']
     \<in> set (new_events stale_state
              (snd (handle_voice_message world_transcription_fails demo_config other_update
                     stale_state))) \<and>
   [''srv'', ''bot'', ''temp_voice.ogg''] = BASE_DIR demo_config @ [''temp_voice.ogg'']"
proof -
  let ?p = "[''srv'', ''bot'', ''temp_voice.ogg'']"
  let ?d = "Download ''voice/v1'' ?p (Downloaded ''OggS'')"
  have h1: "?d \<in> set (new_events empty_state
              (snd (handle_voice_message world_ok demo_config demo_update empty_state)))"
    by (simp add: model_defs demo_defs)
  have h2: "?p \<in> set (event_paths ?d)"
    by (simp add: event_paths_def)
  have h3: "Remove ?p \<in> set (new_events stale_state
              (snd (handle_voice_message world_transcription_fails demo_config other_update
                     stale_state)))"
    by (simp add: model_defs demo_defs)
  have h4: "?p \<in> set (event_paths (Remove ?p))"
    by (simp add: event_paths_def)
  from voice_temp_path_constant [OF h1 h2 h3 h4] h1 h3 show ?thesis by simp
qed

section \<open>Generation and delivery\<close>

text \<open>
  Claim C3. Whenever the rich (Markdown) send of the generated response raises, the
  routine retries the send exactly once, in plain mode, with the same text, and does
  not retry that send again whatever the retry does. The events of such a run are the
  completion call, the rejected rich send, the warning, one plain send of the same
  text and, when that send raises too, the error log and the generic error text (when
  the bundle has it): no further send of the response.
\<close>

theorem rich_failure_retried_once_in_plain:
  assumes "Reply t Markdown (Some e)
             \<in> set (new_events s (snd (generate_jungian_response w c body s)))"
  shows "\<exists>q cr. new_events s (snd (generate_jungian_response w c body s)) =
           [Complete q cr, Reply t Markdown (Some e),
            Log Warning ''Markdown parsing failed, falling back to plain text.'' e,
            Reply t NoParseMode (reply_text_result w (now s + 3) t NoParseMode)] @
           (case reply_text_result w (now s + 3) t NoParseMode of
              None \<Rightarrow> []
            | Some e2 \<Rightarrow>
                Log Error ''LLM Generation Error'' e2 #
                (case lookup2 (TEXTS c) ''errors'' ''generic_error'' of
                   Inl k \<Rightarrow> []
                 | Inr g \<Rightarrow> [Reply g NoParseMode (reply_text_result w (now s + 5) g NoParseMode)]))"
proof (cases rule: generate_try_cases [of w c body s])
  case (early e')
  from assms show ?thesis
    by (simp add: generate_after_failure [OF early] split: sum.splits)
next
  case (completion e' q cr)
  from assms show ?thesis
    by (simp add: generate_after_failure [OF completion] split: sum.splits)
next
  case (send q a rest footer)
  let ?full = "py_str a @ footer"
  let ?s1 = "emit (Complete q (Inr (a # rest))) s"
  show ?thesis
  proof (cases "reply_text_result w (Suc (now s)) ?full Markdown")
    case None
    then have g: "generate_try_block w c body s = (Inr (), emit (Reply ?full Markdown None) ?s1)"
      by (simp add: send safe_sending_block_eq)
    from assms show ?thesis
      by (simp add: generate_after_success [OF g])
  next
    case (Some e1)
    note rich = Some
    show ?thesis
    proof (cases "reply_text_result w (Suc (Suc (Suc (now s)))) ?full NoParseMode")
      case None
      with rich have g: "generate_try_block w c body s =
          (Inr (), emit (Reply ?full NoParseMode None)
             (emit (Log Warning ''Markdown parsing failed, falling back to plain text.'' e1)
               (emit (Reply ?full Markdown (Some e1)) ?s1)))"
        by (simp add: send safe_sending_block_eq)
      from assms None show ?thesis
        by (auto simp: generate_after_success [OF g] eval_nat_numeral)
    next
      case (Some e2)
      with rich have g: "generate_try_block w c body s =
          (Inl e2, emit (Reply ?full NoParseMode (Some e2))
             (emit (Log Warning ''Markdown parsing failed, falling back to plain text.'' e1)
               (emit (Reply ?full Markdown (Some e1)) ?s1)))"
        by (simp add: send safe_sending_block_eq)
      from assms Some show ?thesis
        by (auto simp: generate_after_failure [OF g] eval_nat_numeral split: sum.splits)
    qed
  qed
qed

text \<open>A transport that rejects Markdown: one rich send, one plain send, and no more.\<close>

theorem rich_failure_retried_once_in_plain_witness:
  "Reply ''Il mare e l inconscio. (Nota: non sono un medico.)'' Markdown
     (Some (TransportError ''can not parse entities''))
     \<in> set (new_events empty_state
              (snd (generate_jungian_response world_markdown_rejected demo_config
                     ''Ho fatto un sogno strano'' empty_state))) \<and>
   (\<exists>q cr. new_events empty_state
              (snd (generate_jungian_response world_markdown_rejected demo_config
                     ''Ho fatto un sogno strano'' empty_state)) =
      [Complete q cr,
       Reply ''Il mare e l inconscio. (Nota: non sono un medico.)'' Markdown
         (Some (TransportError ''can not parse entities'')),
       Log Warning ''Markdown parsing failed, falling back to plain text.''
         (TransportError ''can not parse entities''),
       Reply ''Il mare e l inconscio. (Nota: non sono un medico.)'' NoParseMode None])"
proof -
  have h: "Reply ''Il mare e l inconscio. (Nota: non sono un medico.)'' Markdown
     (Some (TransportError ''can not parse entities''))
     \<in> set (new_events empty_state
              (snd (generate_jungian_response world_markdown_rejected demo_config
                     ''Ho fatto un sogno strano'' empty_state)))"
    by (simp add: model_defs demo_defs)
  from rich_failure_retried_once_in_plain [OF h] h show ?thesis
    by (simp add: demo_defs)
qed

subsection \<open>When the plain retry raises\<close>

lemma plain_retry_raised:
  assumes "take 4 (new_events s (snd (generate_jungian_response w c body s))) =
             [Complete q cr, Reply t Markdown (Some e1), Log Warning msg e1,
              Reply t NoParseMode (Some e2)]"
  shows "fst (generate_jungian_response w c body s) =
           (case lookup2 (TEXTS c) ''errors'' ''generic_error'' of
              Inl k \<Rightarrow> Inl k
            | Inr g \<Rightarrow>
                (case reply_text_result w (now s + 5) g NoParseMode of
                   None \<Rightarrow> Inr ()
                 | Some e3 \<Rightarrow> Inl e3)) \<and>
         new_events s (snd (generate_jungian_response w c body s)) =
           [Complete q cr, Reply t Markdown (Some e1), Log Warning msg e1,
            Reply t NoParseMode (Some e2), Log Error ''LLM Generation Error'' e2] @
           (case lookup2 (TEXTS c) ''errors'' ''generic_error'' of
              Inl k \<Rightarrow> []
            | Inr g \<Rightarrow> [Reply g NoParseMode (reply_text_result w (now s + 5) g NoParseMode)])"
proof (cases rule: generate_try_cases [of w c body s])
  case (early e')
  from assms show ?thesis
    by (simp add: generate_after_failure [OF early] split: sum.splits)
next
  case (completion e' q' cr')
  from assms show ?thesis
    by (simp add: generate_after_failure [OF completion] split: sum.splits)
next
  case (send q' a rest footer)
  let ?full = "py_str a @ footer"
  let ?s1 = "emit (Complete q' (Inr (a # rest))) s"
  show ?thesis
  proof (cases "reply_text_result w (Suc (now s)) ?full Markdown")
    case None
    then have g: "generate_try_block w c body s = (Inr (), emit (Reply ?full Markdown None) ?s1)"
      by (simp add: send safe_sending_block_eq)
    from assms show ?thesis
      by (simp add: generate_after_success [OF g])
  next
    case (Some e1')
    note rich = Some
    show ?thesis
    proof (cases "reply_text_result w (Suc (Suc (Suc (now s)))) ?full NoParseMode")
      case None
      with rich have g: "generate_try_block w c body s =
          (Inr (), emit (Reply ?full NoParseMode None)
             (emit (Log Warning ''Markdown parsing failed, falling back to plain text.'' e1')
               (emit (Reply ?full Markdown (Some e1')) ?s1)))"
        by (simp add: send safe_sending_block_eq)
      from assms None show ?thesis
        by (simp add: generate_after_success [OF g])
    next
      case (Some e2')
      with rich have g: "generate_try_block w c body s =
          (Inl e2', emit (Reply ?full NoParseMode (Some e2'))
             (emit (Log Warning ''Markdown parsing failed, falling back to plain text.'' e1')
               (emit (Reply ?full Markdown (Some e1')) ?s1)))"
        by (simp add: send safe_sending_block_eq)
      from assms Some show ?thesis
        by (auto simp: generate_after_failure [OF g] eval_nat_numeral split: sum.splits)
    qed
  qed
qed

lemma raises_only_from_generic_error_reply:
  assumes "fst (generate_jungian_response w c body s) = Inl e"
  shows "lookup2 (TEXTS c) ''errors'' ''generic_error'' = Inl e \<or>
         (\<exists>g. lookup2 (TEXTS c) ''errors'' ''generic_error'' = Inr g \<and>
              last (new_events s (snd (generate_jungian_response w c body s))) =
                Reply g NoParseMode (Some e))"
proof -
  obtain r s1 where t: "generate_try_block w c body s = (r, s1)"
    by (cases "generate_try_block w c body s")
  have "grows (\<lambda>ev. True) s s1"
    using generate_try_grows [of "\<lambda>ev. True" s s w c body] t by simp
  then have le: "now s \<le> now s1"
    by (rule grows_now)
  show ?thesis
  proof (cases r)
    case (Inr v)
    with t assms show ?thesis
      by (simp add: generate_after_success)
  next
    case (Inl e0)
    with t have f: "generate_try_block w c body s = (Inl e0, s1)" by simp
    from assms le show ?thesis
      by (auto simp: generate_after_failure [OF f] split: sum.splits option.splits)
  qed
qed

text \<open>
  Claim C2, as the code has it. The plain retry is inside the outer \<^verbatim>\<open>try\<close> of the
  routine, so when it raises the error does not reach the caller: the outer
  \<^verbatim>\<open>except\<close> logs it and sends the generic error text in plain mode. The routine
  ends normally when that last reply is delivered. What reaches the caller is only a
  failure of that last reply (or the \<^verbatim>\<open>KeyError\<close> of a bundle without the generic
  error text).
\<close>

theorem plain_retry_failure_reported:
  "(take 4 (new_events s (snd (generate_jungian_response w c body s))) =
      [Complete q cr, Reply t Markdown (Some e1), Log Warning msg e1,
       Reply t NoParseMode (Some e2)] \<longrightarrow>
    fst (generate_jungian_response w c body s) =
      (case lookup2 (TEXTS c) ''errors'' ''generic_error'' of
         Inl k \<Rightarrow> Inl k
       | Inr g \<Rightarrow>
           (case reply_text_result w (now s + 5) g NoParseMode of
              None \<Rightarrow> Inr ()
            | Some e3 \<Rightarrow> Inl e3)) \<and>
    new_events s (snd (generate_jungian_response w c body s)) =
      [Complete q cr, Reply t Markdown (Some e1), Log Warning msg e1,
       Reply t NoParseMode (Some e2), Log Error ''LLM Generation Error'' e2] @
      (case lookup2 (TEXTS c) ''errors'' ''generic_error'' of
         Inl k \<Rightarrow> []
       | Inr g \<Rightarrow> [Reply g NoParseMode (reply_text_result w (now s + 5) g NoParseMode)])) \<and>
   (fst (generate_jungian_response w c body s) = Inl e \<longrightarrow>
    lookup2 (TEXTS c) ''errors'' ''generic_error'' = Inl e \<or>
    (\<exists>g. lookup2 (TEXTS c) ''errors'' ''generic_error'' = Inr g \<and>
         last (new_events s (snd (generate_jungian_response w c body s))) =
           Reply g NoParseMode (Some e)))"
  using plain_retry_raised [of s w c body q cr t e1 msg e2]
    raises_only_from_generic_error_reply [of w c body s e]
  by blast

text \<open>No reply gets through: the caller receives the error of the generic error reply.\<close>

theorem plain_retry_failure_reported_witness:
  "take 4 (new_events empty_state
            (snd (generate_jungian_response world_replies_fail demo_config
                   ''Ho fatto un sogno strano'' empty_state))) =
     [Complete \<lparr>messages = [(''system'', ''Sei un analista junghiano.''),
                             (''user'', ''Sogno: Ho fatto un sogno strano'')],
                 model = ''llama-3.3-70b-versatile'', temperature = 7 / 10\<rparr>
        (Inr [Some ''Il mare e l inconscio.'']),
      Reply ''Il mare e l inconscio. (Nota: non sono un medico.)'' Markdown
        (Some (TransportError ''timed out'')),
      Log Warning ''Markdown parsing failed, falling back to plain text.''
        (TransportError ''timed out''),
      Reply ''Il mare e l inconscio. (Nota: non sono un medico.)'' NoParseMode
        (Some (TransportError ''timed out''))] \<and>
   fst (generate_jungian_response world_replies_fail demo_config
         ''Ho fatto un sogno strano'' empty_state) = Inl (TransportError ''timed out'') \<and>
   drop 4 (new_events empty_state
            (snd (generate_jungian_response world_replies_fail demo_config
                   ''Ho fatto un sogno strano'' empty_state))) =
     [Log Error ''LLM Generation Error'' (TransportError ''timed out''),
      Reply ''Errore.'' NoParseMode (Some (TransportError ''timed out''))]"
proof -
  have h: "take 4 (new_events empty_state
            (snd (generate_jungian_response world_replies_fail demo_config
                   ''Ho fatto un sogno strano'' empty_state))) =
     [Complete \<lparr>messages = [(''system'', ''Sei un analista junghiano.''),
                             (''user'', ''Sogno: Ho fatto un sogno strano'')],
                 model = ''llama-3.3-70b-versatile'', temperature = 7 / 10\<rparr>
        (Inr [Some ''Il mare e l inconscio.'']),
      Reply ''Il mare e l inconscio. (Nota: non sono un medico.)'' Markdown
        (Some (TransportError ''timed out'')),
      Log Warning ''Markdown parsing failed, falling back to plain text.''
        (TransportError ''timed out''),
      Reply ''Il mare e l inconscio. (Nota: non sono un medico.)'' NoParseMode
        (Some (TransportError ''timed out''))]"
    by (simp add: model_defs demo_defs)
  have f: "fst (generate_jungian_response world_replies_fail demo_config
             ''Ho fatto un sogno strano'' empty_state) = Inl (TransportError ''timed out'')"
    by (simp add: model_defs demo_defs)
  have l: "lookup2 (TEXTS demo_config) ''errors'' ''generic_error'' = Inr ''Errore.''"
    by (simp add: demo_defs lookup2_def)
  have r: "reply_text_result world_replies_fail (now empty_state + 5) ''Errore.'' NoParseMode =
             Some (TransportError ''timed out'')"
    by (simp add: demo_defs)
  from plain_retry_failure_reported
         [where s = empty_state and w = world_replies_fail and c = demo_config
            and body = "''Ho fatto un sogno strano''"
            and e = "TransportError ''timed out''"]
       h f
  show ?thesis
    by (simp add: l r)
qed

text \<open>
  Against the claim as written: the response is too long for the transport in either
  mode, so the plain retry raises; the generic error text is delivered, and the
  routine returns normally.
\<close>

theorem plain_retry_failure_not_propagated:
  "trace (snd (generate_jungian_response world_message_too_long demo_config
                ''Ho fatto un sogno strano'' empty_state)) =
     [Complete \<lparr>messages = [(''system'', ''Sei un analista junghiano.''),
                             (''user'', ''Sogno: Ho fatto un sogno strano'')],
                 model = ''llama-3.3-70b-versatile'', temperature = 7 / 10\<rparr>
        (Inr [Some ''Il mare e l inconscio.'']),
      Reply ''Il mare e l inconscio. (Nota: non sono un medico.)'' Markdown
        (Some (TransportError ''message is too long'')),
      Log Warning ''Markdown parsing failed, falling back to plain text.''
        (TransportError ''message is too long''),
      Reply ''Il mare e l inconscio. (Nota: non sono un medico.)'' NoParseMode
        (Some (TransportError ''message is too long'')),
      Log Error ''LLM Generation Error'' (TransportError ''message is too long''),
      Reply ''Errore.'' NoParseMode None] \<and>
   fst (generate_jungian_response world_message_too_long demo_config
         ''Ho fatto un sogno strano'' empty_state) = Inr ()"
  by (simp add: model_defs demo_defs)

text \<open>
  Claim C5. For every inbound text body, once the typing indicator is out, the
  completion endpoint is called with the system prompt and a user-role message that is
  the wrapper template formatted with \<^verbatim>\<open>user_input\<close> set to that body; for a template
  with the one placeholder and no other brace this is the template with the
  placeholder replaced by the body as it is. The text then delivered is the content of
  the first choice followed by the disclaimer footer, nothing between them and nothing
  trimmed, and the first attempt is in rich mode. The hypotheses are that the
  collaborators answer: the bundle has the keys, the template formats, the completion
  has a first choice with a text.
\<close>

theorem text_body_wrapped_and_footer_appended:
  assumes "send_chat_action_result w (now s) (chat_id u) ''typing'' = None"
    and "lookup2 (TEXTS c) ''prompts'' ''user_input_wrapper'' = Inr template"
    and "py_format (extended_field w) [''user_input'' \<mapsto> message_text u] template = Inr wrapped"
    and "lookup2 (TEXTS c) ''prompts'' ''system_prompt'' = Inr system_prompt"
    and "lookup2 (TEXTS c) ''messages'' ''footer_disclaimer'' = Inr footer"
    and "completion_result w (now s + 1)
           \<lparr>messages = [(''system'', system_prompt), (''user'', wrapped)],
            model = ''llama-3.3-70b-versatile'', temperature = 7 / 10\<rparr> =
         Inr (Some analysis # rest)"
  shows "take 3 (new_events s (snd (handle_text_message w c u s))) =
           [ChatAction (chat_id u) ''typing'' None,
            Complete \<lparr>messages = [(''system'', system_prompt), (''user'', wrapped)],
                      model = ''llama-3.3-70b-versatile'', temperature = 7 / 10\<rparr>
              (Inr (Some analysis # rest)),
            Reply (analysis @ footer) Markdown
              (reply_text_result w (now s + 2) (analysis @ footer) Markdown)] \<and>
         (\<forall>pre post. template = pre @ ''{user_input}'' @ post \<and>
              set (pre @ post) \<inter> set ''{}'' = {} \<longrightarrow>
            wrapped = pre @ message_text u @ post)"
proof -
  let ?req = "\<lparr>messages = [(''system'', system_prompt), (''user'', wrapped)],
               model = ''llama-3.3-70b-versatile'', temperature = 7 / 10\<rparr>"
  let ?s1 = "emit (ChatAction (chat_id u) ''typing'' None) s"
  let ?s2 = "emit (Complete ?req (Inr (Some analysis # rest))) ?s1"
  have t: "generate_try_block w c (message_text u) ?s1 =
             safe_sending_block w (analysis @ footer) ?s2"
    using assms by (simp add: generate_try_block_def Let_def py_str_def)
  have h: "handle_text_message w c u s = generate_jungian_response w c (message_text u) ?s1"
    using assms(1) by (simp add: handle_text_message_def Let_def)
  have "take 3 (new_events s (snd (generate_jungian_response w c (message_text u) ?s1))) =
          [ChatAction (chat_id u) ''typing'' None, Complete ?req (Inr (Some analysis # rest)),
           Reply (analysis @ footer) Markdown
             (reply_text_result w (now s + 2) (analysis @ footer) Markdown)]"
  proof (cases "reply_text_result w (Suc (Suc (now s))) (analysis @ footer) Markdown")
    case None
    then have "generate_try_block w c (message_text u) ?s1 =
        (Inr (), emit (Reply (analysis @ footer) Markdown None) ?s2)"
      by (simp add: t safe_sending_block_eq)
    from generate_after_success [OF this] None show ?thesis by simp
  next
    case (Some e1)
    note rich = Some
    show ?thesis
    proof (cases "reply_text_result w (Suc (Suc (Suc (Suc (now s))))) (analysis @ footer) NoParseMode")
      case None
      with rich have "generate_try_block w c (message_text u) ?s1 =
        (Inr (), emit (Reply (analysis @ footer) NoParseMode None)
           (emit (Log Warning ''Markdown parsing failed, falling back to plain text.'' e1)
             (emit (Reply (analysis @ footer) Markdown (Some e1)) ?s2)))"
        by (simp add: t safe_sending_block_eq)
      from generate_after_success [OF this] rich show ?thesis by simp
    next
      case (Some e2)
      with rich have "generate_try_block w c (message_text u) ?s1 =
        (Inl e2, emit (Reply (analysis @ footer) NoParseMode (Some e2))
           (emit (Log Warning ''Markdown parsing failed, falling back to plain text.'' e1)
             (emit (Reply (analysis @ footer) Markdown (Some e1)) ?s2)))"
        by (simp add: t safe_sending_block_eq)
      from generate_after_failure [OF this] rich show ?thesis
        by (simp split: sum.splits)
    qed
  qed
  moreover have "wrapped = pre @ message_text u @ post"
    if "template = pre @ ''{user_input}'' @ post" "set (pre @ post) \<inter> set ''{}'' = {}"
    for pre post
    using that assms(3) py_format_wrapper [of pre post "extended_field w" "message_text u"] by auto
  ultimately show ?thesis by (simp add: h)
qed

text \<open>The scenario of the specification.\<close>

theorem text_body_wrapped_and_footer_appended_witness:
  "send_chat_action_result world_ok (now empty_state) (chat_id demo_update) ''typing'' = None \<and>
   message_text demo_update = ''Ho fatto un sogno strano'' \<and>
   py_format (extended_field world_ok) [''user_input'' \<mapsto> message_text demo_update]
     ''Sogno: {user_input}'' =
     Inr ''Sogno: Ho fatto un sogno strano'' \<and>
   take 3 (new_events empty_state (snd (handle_text_message world_ok demo_config demo_update
            empty_state))) =
     [ChatAction 42 ''typing'' None,
      Complete \<lparr>messages = [(''system'', ''Sei un analista junghiano.''),
                             (''user'', ''Sogno: Ho fatto un sogno strano'')],
                 model = ''llama-3.3-70b-versatile'', temperature = 7 / 10\<rparr>
        (Inr [Some ''Il mare e l inconscio.'']),
      Reply ''Il mare e l inconscio. (Nota: non sono un medico.)'' Markdown None]"
proof -
  have h1: "send_chat_action_result world_ok (now empty_state) (chat_id demo_update) ''typing''
              = None"
    by (simp add: demo_defs)
  have h2: "lookup2 (TEXTS demo_config) ''prompts'' ''user_input_wrapper'' =
              Inr ''Sogno: {user_input}''"
    by (simp add: demo_defs lookup2_def)
  have h3: "py_format (extended_field world_ok) [''user_input'' \<mapsto> message_text demo_update]
     ''Sogno: {user_input}'' =
              Inr ''Sogno: Ho fatto un sogno strano''"
    by (simp add: demo_defs field_value_def is_digit_def)
  have h4: "lookup2 (TEXTS demo_config) ''prompts'' ''system_prompt'' =
              Inr ''Sei un analista junghiano.''"
    by (simp add: demo_defs lookup2_def)
  have h5: "lookup2 (TEXTS demo_config) ''messages'' ''footer_disclaimer'' =
              Inr '' (Nota: non sono un medico.)''"
    by (simp add: demo_defs lookup2_def)
  have h6: "completion_result world_ok (now empty_state + 1)
              \<lparr>messages = [(''system'', ''Sei un analista junghiano.''),
                            (''user'', ''Sogno: Ho fatto un sogno strano'')],
                model = ''llama-3.3-70b-versatile'', temperature = 7 / 10\<rparr> =
            Inr (Some ''Il mare e l inconscio.'' # [])"
    by (simp add: demo_defs)
  have "message_text demo_update = ''Ho fatto un sogno strano''"
    by (simp add: demo_defs)
  with text_body_wrapped_and_footer_appended [OF h1 h2 h3 h4 h5 h6] h1 h3 show ?thesis
    by (simp add: demo_defs)
qed

section \<open>Failures in the voice handler\<close>

text \<open>
  Claim C6. For every voice update, a failure of the download, of the transcription or
  of the feedback with the transcript (any exception of lines 129 to 146) is caught by
  the handler: it logs the error, replies with the \<^verbatim>\<open>audio_error\<close> text in plain mode
  and makes no completion call. The error itself never reaches the caller: the handler
  ends with the outcome of the \<^verbatim>\<open>audio_error\<close> reply, normally when that reply is
  delivered. The events of the run are those up to the failure, the error log, the
  \<^verbatim>\<open>audio_error\<close> reply and the removal of the file if one is there. In particular,
  after a failed download the user has received the processing feedback and then
  exactly the \<^verbatim>\<open>audio_error\<close> message.
\<close>

theorem voice_failure_answered_with_audio_error:
  assumes key: "lookup2 (TEXTS c) ''messages'' ''processing_audio'' = Inr t0"
    and sent: "reply_text_result w (now s) t0 NoParseMode = None"
    and failure: "transcribe_voice w c u (emit (Reply t0 NoParseMode None) s) = (Inl e, s2)"
    and audio: "lookup2 (TEXTS c) ''errors'' ''audio_error'' = Inr audio_error"
  shows "fst (handle_voice_message w c u s) =
           (case reply_text_result w (Suc (now s2)) audio_error NoParseMode of
              None \<Rightarrow> Inr ()
            | Some e' \<Rightarrow> Inl e') \<and>
         new_events s (snd (handle_voice_message w c u s)) =
           new_events s s2 @
           [Log Error ''Audio Processing Error'' e,
            Reply audio_error NoParseMode
              (reply_text_result w (Suc (now s2)) audio_error NoParseMode)] @
           (if files s2 (temp_ogg_path c) = None then [] else [Remove (temp_ogg_path c)]) \<and>
         list_all (\<lambda>ev. \<not> is_complete ev) (new_events s (snd (handle_voice_message w c u s)))"
proof -
  let ?s1 = "emit (Reply t0 NoParseMode None) s"
  let ?r = "reply_text_result w (Suc (now s2)) audio_error NoParseMode"
  let ?s3 = "emit (Reply audio_error NoParseMode ?r) (emit (Log Error ''Audio Processing Error'' e) s2)"
  have g: "grows (\<lambda>ev. \<not> is_complete ev) ?s1 s2"
    using transcribe_voice_grows [of "\<lambda>ev. \<not> is_complete ev" c ?s1 ?s1 w u] failure by simp
  have le: "now s \<le> now s2"
    using grows_now [OF g] by simp
  have ev2: "new_events s s2 = Reply t0 NoParseMode None # new_events ?s1 s2"
    using new_events_grows [OF g, of s] by simp
  have h: "handle_voice_message w c u s =
             (case ?r of None \<Rightarrow> Inr () | Some e' \<Rightarrow> Inl e', voice_finally c ?s3)"
    using failure audio
    by (simp add: handle_voice_entered [OF key sent] voice_try_block_def voice_except_def
          reply_text_def Let_def)
  have evs: "new_events s (voice_finally c ?s3) =
           new_events s s2 @ [Log Error ''Audio Processing Error'' e, Reply audio_error NoParseMode ?r] @
           (if files s2 (temp_ogg_path c) = None then [] else [Remove (temp_ogg_path c)])"
    using le by (simp add: new_events_finally)
  have "list_all (\<lambda>ev. \<not> is_complete ev) (new_events s (voice_finally c ?s3))"
    using grows_all_new [OF g] by (simp add: evs ev2)
  with h evs show ?thesis by simp
qed

text \<open>The download breaks off: the whole run, and a normal return.\<close>

theorem voice_failure_answered_with_audio_error_witness:
  "fst (transcribe_voice world_download_fails demo_config demo_update
         (emit (Reply ''Ascolto...'' NoParseMode None) empty_state)) =
     Inl (TransportError ''connection reset'') \<and>
   fst (handle_voice_message world_download_fails demo_config demo_update empty_state) = Inr () \<and>
   new_events empty_state
     (snd (handle_voice_message world_download_fails demo_config demo_update empty_state)) =
     [Reply ''Ascolto...'' NoParseMode None,
      GetFile ''v1'' (Inr ''voice/v1''),
      Download ''voice/v1'' [''srv'', ''bot'', ''temp_voice.ogg'']
        (DownloadFailed (TransportError ''connection reset'') (Some ''Og'')),
      Log Error ''Audio Processing Error'' (TransportError ''connection reset''),
      Reply ''Audio non valido.'' NoParseMode None,
      Remove [''srv'', ''bot'', ''temp_voice.ogg'']]"
proof -
  let ?s1 = "emit (Reply ''Ascolto...'' NoParseMode None) empty_state"
  let ?s2 = "snd (transcribe_voice world_download_fails demo_config demo_update ?s1)"
  have h1: "lookup2 (TEXTS demo_config) ''messages'' ''processing_audio'' = Inr ''Ascolto...''"
    by (simp add: demo_defs lookup2_def)
  have h2: "reply_text_result world_download_fails (now empty_state) ''Ascolto...'' NoParseMode
              = None"
    by (simp add: demo_defs)
  have h3: "transcribe_voice world_download_fails demo_config demo_update ?s1 =
              (Inl (TransportError ''connection reset''), ?s2)"
    by (simp add: model_defs demo_defs)
  have f: "fst (transcribe_voice world_download_fails demo_config demo_update ?s1) =
             Inl (TransportError ''connection reset'')"
    by (simp add: model_defs demo_defs)
  have h4: "lookup2 (TEXTS demo_config) ''errors'' ''audio_error'' = Inr ''Audio non valido.''"
    by (simp add: demo_defs lookup2_def)
  have s2: "trace ?s2 =
      [Reply ''Ascolto...'' NoParseMode None, GetFile ''v1'' (Inr ''voice/v1''),
       Download ''voice/v1'' [''srv'', ''bot'', ''temp_voice.ogg'']
         (DownloadFailed (TransportError ''connection reset'') (Some ''Og''))]"
    "files ?s2 [''srv'', ''bot'', ''temp_voice.ogg''] = Some ''Og''"
    by (simp_all add: model_defs demo_defs)
  have w: "reply_text_result world_download_fails (Suc (now ?s2)) ''Audio non valido.''
             NoParseMode = None"
    by (simp add: demo_defs)
  have p: "temp_ogg_path demo_config = [''srv'', ''bot'', ''temp_voice.ogg'']"
    by (simp add: temp_ogg_path_def demo_defs)
  have z: "now empty_state = 0"
    by (simp add: now_def empty_state_def)
  have n: "new_events empty_state ?s2 =
      [Reply ''Ascolto...'' NoParseMode None, GetFile ''v1'' (Inr ''voice/v1''),
       Download ''voice/v1'' [''srv'', ''bot'', ''temp_voice.ogg'']
         (DownloadFailed (TransportError ''connection reset'') (Some ''Og''))]"
    using z by (simp add: new_events_def s2)
  from voice_failure_answered_with_audio_error [OF h1 h2 h3 h4] f show ?thesis
    by (simp add: w p n s2)
qed

section \<open>The rich sends\<close>

text \<open>
  Claim C4, as the code has it. Of the four rich sends only the generated response has
  the plain retry (lines 95 to 99). The welcome and the privacy reply are one rich send
  each, and a rejection raises out of the command handler. The feedback with the
  transcript is one rich send; a rejection is not retried in plain form: it is caught
  by the \<^verbatim>\<open>except\<close> clause of the voice handler, which logs it and sends the
  \<^verbatim>\<open>audio_error\<close> text, and no analysis follows.
\<close>

theorem only_generated_response_has_plain_retry:
  "(lookup2 (TEXTS c) ''messages'' ''welcome'' = Inr greeting \<longrightarrow>
      start_command w c u s =
        (case reply_text_result w (now s) greeting Markdown of None \<Rightarrow> Inr () | Some e \<Rightarrow> Inl e,
         emit (Reply greeting Markdown (reply_text_result w (now s) greeting Markdown)) s)) \<and>
   (lookup2 (TEXTS c) ''messages'' ''privacy'' = Inr privacy \<longrightarrow>
      privacy_command w c u s =
        (case reply_text_result w (now s) privacy Markdown of None \<Rightarrow> Inr () | Some e \<Rightarrow> Inl e,
         emit (Reply privacy Markdown (reply_text_result w (now s) privacy Markdown)) s)) \<and>
   (lookup2 (TEXTS c) ''messages'' ''processing_audio'' = Inr ack \<and>
    reply_text_result w (now s) ack NoParseMode = None \<and>
    Reply fb Markdown (Some e)
      \<in> set (new_events (emit (Reply ack NoParseMode None) s)
              (snd (transcribe_voice w c u (emit (Reply ack NoParseMode None) s)))) \<longrightarrow>
      (\<exists>fh b q transcribed_text r.
         new_events s (snd (handle_voice_message w c u s)) =
           [Reply ack NoParseMode None, GetFile (voice_file_id u) (Inr fh),
            Download fh (temp_ogg_path c) (Downloaded b), OpenRead (temp_ogg_path c) (Some b),
            Transcribe q (Inr transcribed_text), Reply fb Markdown (Some e),
            Log Error ''Audio Processing Error'' e] @
           (case lookup2 (TEXTS c) ''errors'' ''audio_error'' of
              Inl k \<Rightarrow> []
            | Inr ae \<Rightarrow> [Reply ae NoParseMode r]) @
           [Remove (temp_ogg_path c)])) \<and>
   (reply_text_result w (now s) full Markdown = Some err \<longrightarrow>
      safe_sending_block w full s =
        (case reply_text_result w (now s + 2) full NoParseMode of
           None \<Rightarrow> Inr ()
         | Some e2 \<Rightarrow> Inl e2,
         emit (Reply full NoParseMode (reply_text_result w (now s + 2) full NoParseMode))
           (emit (Log Warning ''Markdown parsing failed, falling back to plain text.'' err)
             (emit (Reply full Markdown (Some err)) s))))"
proof (intro conjI impI)
  assume "lookup2 (TEXTS c) ''messages'' ''welcome'' = Inr greeting"
  then show "start_command w c u s =
        (case reply_text_result w (now s) greeting Markdown of None \<Rightarrow> Inr () | Some e \<Rightarrow> Inl e,
         emit (Reply greeting Markdown (reply_text_result w (now s) greeting Markdown)) s)"
    by (simp add: start_command_def reply_text_def Let_def)
next
  assume "lookup2 (TEXTS c) ''messages'' ''privacy'' = Inr privacy"
  then show "privacy_command w c u s =
        (case reply_text_result w (now s) privacy Markdown of None \<Rightarrow> Inr () | Some e \<Rightarrow> Inl e,
         emit (Reply privacy Markdown (reply_text_result w (now s) privacy Markdown)) s)"
    by (simp add: privacy_command_def reply_text_def Let_def)
next
  assume "reply_text_result w (now s) full Markdown = Some err"
  then show "safe_sending_block w full s =
        (case reply_text_result w (now s + 2) full NoParseMode of
           None \<Rightarrow> Inr ()
         | Some e2 \<Rightarrow> Inl e2,
         emit (Reply full NoParseMode (reply_text_result w (now s + 2) full NoParseMode))
           (emit (Log Warning ''Markdown parsing failed, falling back to plain text.'' err)
             (emit (Reply full Markdown (Some err)) s)))"
    by (simp add: safe_sending_block_eq)
next
  let ?s1 = "emit (Reply ack NoParseMode None) s"
  assume a: "lookup2 (TEXTS c) ''messages'' ''processing_audio'' = Inr ack \<and>
    reply_text_result w (now s) ack NoParseMode = None \<and>
    Reply fb Markdown (Some e) \<in> set (new_events ?s1 (snd (transcribe_voice w c u ?s1)))"
  then have key: "lookup2 (TEXTS c) ''messages'' ''processing_audio'' = Inr ack"
    and sent: "reply_text_result w (now s) ack NoParseMode = None"
    and rej: "Reply fb Markdown (Some e) \<in> set (new_events ?s1 (snd (transcribe_voice w c u ?s1)))"
    by simp_all
  from transcribe_voice_disj [of w c u ?s1] rej
  obtain fh b q transcribed_text s2 where
    tv: "transcribe_voice w c u ?s1 = (Inl e, s2)"
    and tr: "trace s2 = trace ?s1 @ [GetFile (voice_file_id u) (Inr fh),
                            Download fh (temp_ogg_path c) (Downloaded b),
                            OpenRead (temp_ogg_path c) (Some b),
                            Transcribe q (Inr transcribed_text), Reply fb Markdown (Some e)]"
    and fl: "files s2 = (files ?s1)(temp_ogg_path c \<mapsto> b)"
    by (auto simp: new_events_def now_def split: option.splits)
  have "new_events ?s1 s2 = [GetFile (voice_file_id u) (Inr fh),
                            Download fh (temp_ogg_path c) (Downloaded b),
                            OpenRead (temp_ogg_path c) (Some b),
                            Transcribe q (Inr transcribed_text), Reply fb Markdown (Some e)]"
    using tr by (simp add: new_events_def now_def)
  with handle_voice_failure [OF key sent tv] fl
  show "\<exists>fh b q transcribed_text r.
         new_events s (snd (handle_voice_message w c u s)) =
           [Reply ack NoParseMode None, GetFile (voice_file_id u) (Inr fh),
            Download fh (temp_ogg_path c) (Downloaded b), OpenRead (temp_ogg_path c) (Some b),
            Transcribe q (Inr transcribed_text), Reply fb Markdown (Some e),
            Log Error ''Audio Processing Error'' e] @
           (case lookup2 (TEXTS c) ''errors'' ''audio_error'' of
              Inl k \<Rightarrow> []
            | Inr ae \<Rightarrow> [Reply ae NoParseMode r]) @
           [Remove (temp_ogg_path c)]"
    by (auto split: sum.splits)
qed

text \<open>A transport that rejects Markdown, at each of the four sends.\<close>

theorem only_generated_response_has_plain_retry_witness:
  "start_command world_markdown_rejected demo_config demo_update empty_state =
     (Inl (TransportError ''can not parse entities''),
      emit (Reply ''*Benvenuto*'' Markdown (Some (TransportError ''can not parse entities'')))
        empty_state) \<and>
   privacy_command world_markdown_rejected demo_config demo_update empty_state =
     (Inl (TransportError ''can not parse entities''),
      emit (Reply ''_Privacy_'' Markdown (Some (TransportError ''can not parse entities'')))
        empty_state) \<and>
   drop 5 (new_events empty_state
     (snd (handle_voice_message world_markdown_rejected demo_config demo_update empty_state))) =
     [Reply ''Hai detto: Ho sognato il mare'' Markdown
        (Some (TransportError ''can not parse entities'')),
      Log Error ''Audio Processing Error'' (TransportError ''can not parse entities''),
      Reply ''Audio non valido.'' NoParseMode None,
      Remove [''srv'', ''bot'', ''temp_voice.ogg'']] \<and>
   safe_sending_block world_markdown_rejected ''Il mare'' empty_state =
     (Inr (),
      emit (Reply ''Il mare'' NoParseMode None)
        (emit (Log Warning ''Markdown parsing failed, falling back to plain text.''
                 (TransportError ''can not parse entities''))
          (emit (Reply ''Il mare'' Markdown (Some (TransportError ''can not parse entities'')))
            empty_state)))"
proof -
  let ?e = "TransportError ''can not parse entities''"
  let ?s1 = "emit (Reply ''Ascolto...'' NoParseMode None) empty_state"
  have a: "lookup2 (TEXTS demo_config) ''messages'' ''welcome'' = Inr ''*Benvenuto*''"
    and b: "lookup2 (TEXTS demo_config) ''messages'' ''privacy'' = Inr ''_Privacy_''"
    and c1: "lookup2 (TEXTS demo_config) ''messages'' ''processing_audio'' = Inr ''Ascolto...''"
    by (simp_all add: demo_defs lookup2_def)
  have c2: "reply_text_result world_markdown_rejected (now empty_state) ''Ascolto...''
              NoParseMode = None"
    by (simp add: demo_defs)
  have c3: "Reply ''Hai detto: Ho sognato il mare'' Markdown (Some ?e)
      \<in> set (new_events ?s1
              (snd (transcribe_voice world_markdown_rejected demo_config demo_update ?s1)))"
    by (simp add: model_defs demo_defs)
  have d: "reply_text_result world_markdown_rejected (now empty_state) ''Il mare'' Markdown
             = Some ?e"
    by (simp add: demo_defs)
  have r: "reply_text_result world_markdown_rejected (now empty_state) ''*Benvenuto*'' Markdown
             = Some ?e"
    "reply_text_result world_markdown_rejected (now empty_state) ''_Privacy_'' Markdown
             = Some ?e"
    "reply_text_result world_markdown_rejected (Suc (Suc (now empty_state))) ''Il mare''
             NoParseMode = None"
    by (simp_all add: demo_defs)
  have v: "drop 5 (new_events empty_state
     (snd (handle_voice_message world_markdown_rejected demo_config demo_update empty_state))) =
     [Reply ''Hai detto: Ho sognato il mare'' Markdown (Some ?e),
      Log Error ''Audio Processing Error'' ?e,
      Reply ''Audio non valido.'' NoParseMode None,
      Remove [''srv'', ''bot'', ''temp_voice.ogg'']]"
    by (simp add: model_defs demo_defs)
  from only_generated_response_has_plain_retry
         [where c = demo_config and w = world_markdown_rejected and u = demo_update
            and s = empty_state and greeting = "''*Benvenuto*''" and privacy = "''_Privacy_''"
            and ack = "''Ascolto...''" and fb = "''Hai detto: Ho sognato il mare''"
            and e = "TransportError ''can not parse entities''" and full = "''Il mare''"
            and err = "TransportError ''can not parse entities''"]
    a b c1 c2 c3 d v
  show ?thesis
    by (simp add: r)
qed

text \<open>
  Against the claim as written: the transport rejects the Markdown of the welcome text;
  the start command sends nothing else and raises.
\<close>

theorem welcome_rejection_propagates:
  "fst (start_command world_markdown_rejected demo_config demo_update empty_state) =
     Inl (TransportError ''can not parse entities'') \<and>
   trace (snd (start_command world_markdown_rejected demo_config demo_update empty_state)) =
     [Reply ''*Benvenuto*'' Markdown (Some (TransportError ''can not parse entities''))]"
  by (simp add: model_defs demo_defs)

section \<open>The text handler\<close>

text \<open>
  Claim C7, as the code has it. The typing indicator is awaited before anything else
  and outside any \<^verbatim>\<open>try\<close>: when its emission raises, the handler ends with that
  error, the body is not forwarded to the generation routine, and no reply is sent.
  When the emission succeeds the body is forwarded.
\<close>

theorem typing_indicator_gates_text_handler:
  "(send_chat_action_result w (now s) (chat_id u) ''typing'' = Some e \<longrightarrow>
      handle_text_message w c u s = (Inl e, emit (ChatAction (chat_id u) ''typing'' (Some e)) s)) \<and>
   (send_chat_action_result w (now s) (chat_id u) ''typing'' = None \<longrightarrow>
      handle_text_message w c u s =
        generate_jungian_response w c (message_text u)
          (emit (ChatAction (chat_id u) ''typing'' None) s))"
  by (simp add: handle_text_message_def Let_def)

text \<open>Both halves: a transport that cannot emit the indicator, and one that can.\<close>

theorem typing_indicator_gates_text_handler_witness:
  "send_chat_action_result world_typing_fails (now empty_state) (chat_id demo_update) ''typing'' =
     Some (TransportError ''timed out'') \<and>
   handle_text_message world_typing_fails demo_config demo_update empty_state =
     (Inl (TransportError ''timed out''),
      emit (ChatAction 42 ''typing'' (Some (TransportError ''timed out''))) empty_state) \<and>
   send_chat_action_result world_ok (now empty_state) (chat_id demo_update) ''typing'' = None \<and>
   handle_text_message world_ok demo_config demo_update empty_state =
     generate_jungian_response world_ok demo_config ''Ho fatto un sogno strano''
       (emit (ChatAction 42 ''typing'' None) empty_state)"
proof -
  have f: "send_chat_action_result world_typing_fails (now empty_state) (chat_id demo_update)
             ''typing'' = Some (TransportError ''timed out'')"
    by (simp add: demo_defs)
  have g: "send_chat_action_result world_ok (now empty_state) (chat_id demo_update) ''typing''
             = None"
    by (simp add: demo_defs)
  have u: "chat_id demo_update = 42" "message_text demo_update = ''Ho fatto un sogno strano''"
    by (simp_all add: demo_defs)
  from typing_indicator_gates_text_handler
         [where w = world_typing_fails and s = empty_state and u = demo_update
            and c = demo_config and e = "TransportError ''timed out''"]
       typing_indicator_gates_text_handler
         [where w = world_ok and s = empty_state and u = demo_update and c = demo_config]
       f g
  show ?thesis
    by (simp add: u)
qed

text \<open>
  Against the claim as written: the indicator cannot be emitted; the handler raises,
  with no completion call and no reply to the user.
\<close>

theorem typing_failure_is_user_visible:
  "fst (handle_text_message world_typing_fails demo_config demo_update empty_state) =
     Inl (TransportError ''timed out'') \<and>
   trace (snd (handle_text_message world_typing_fails demo_config demo_update empty_state)) =
     [ChatAction 42 ''typing'' (Some (TransportError ''timed out''))]"
  by (simp add: model_defs demo_defs)

section \<open>Startup and the keys of the bundle\<close>

text \<open>
  Claim C8, as the code has it. Startup does not look at the keys of the bundle. The
  module loads with the bundle \<open>t\<close> exactly when both secrets are set and not empty and
  the resource file parses to \<open>t\<close>, whatever keys \<open>t\<close> has: startup fails fast only for a
  missing secret, a missing resource file or a file that is not JSON. A key that is
  absent raises \<^verbatim>\<open>KeyError\<close> in the handler that reads it; for the welcome text that is
  the start command, which then sends nothing.
\<close>

theorem startup_does_not_check_keys:
  "(startup env = Inr t \<longleftrightarrow>
      \<not> falsy (TELEGRAM_TOKEN env) \<and> \<not> falsy (GROQ_API_KEY env) \<and> resources env = Json t) \<and>
   (lookup2 (TEXTS c) ''messages'' ''welcome'' = Inl k \<longrightarrow> start_command w c u s = (Inl k, s))"
  by (auto simp: startup_def load_texts_def start_command_def split: resource_file.splits)

text \<open>A bundle without the welcome text loads; the start command raises.\<close>

theorem startup_does_not_check_keys_witness:
  "\<not> falsy (TELEGRAM_TOKEN env_without_welcome) \<and>
   \<not> falsy (GROQ_API_KEY env_without_welcome) \<and>
   resources env_without_welcome = Json texts_without_welcome \<and>
   startup env_without_welcome = Inr texts_without_welcome \<and>
   start_command world_ok (demo_config\<lparr>TEXTS := texts_without_welcome\<rparr>) demo_update empty_state =
     (Inl (KeyError ''welcome''), empty_state)"
proof -
  have h: "\<not> falsy (TELEGRAM_TOKEN env_without_welcome)"
    "\<not> falsy (GROQ_API_KEY env_without_welcome)"
    "resources env_without_welcome = Json texts_without_welcome"
    by (simp_all add: env_without_welcome_def falsy_def)
  have k: "lookup2 (TEXTS (demo_config\<lparr>TEXTS := texts_without_welcome\<rparr>)) ''messages'' ''welcome''
             = Inl (KeyError ''welcome'')"
    by (simp add: texts_without_welcome_def lookup2_def)
  from startup_does_not_check_keys
         [where env = env_without_welcome and t = texts_without_welcome
            and c = "demo_config\<lparr>TEXTS := texts_without_welcome\<rparr>"
            and k = "KeyError ''welcome''" and w = world_ok and u = demo_update
            and s = empty_state]
       h k
  show ?thesis by simp
qed

text \<open>
  Against the claim as written: the welcome text is absent from the bundle, and startup
  succeeds.
\<close>

theorem startup_with_missing_key_succeeds:
  "lookup2 texts_without_welcome ''messages'' ''welcome'' = Inl (KeyError ''welcome'') \<and>
   startup env_without_welcome = Inr texts_without_welcome"
  by (simp add: env_without_welcome_def startup_def load_texts_def falsy_def
        texts_without_welcome_def lookup2_def)

section \<open>The order of the steps of the voice handler\<close>

text \<open>
  Claim C9. Within one run of the voice handler the steps come in sequence. No file is
  fetched before the processing feedback is delivered; the transcription is not called
  before the download is complete; the completion is not called before the
  transcription has returned; and every rich send after the completion call carries
  the content of the first choice of that completion followed by the disclaimer: the
  footer is appended to the result of the completion, and what is delivered is the
  text with the footer.
\<close>

theorem voice_steps_in_sequence:
  "preceded (feedback_sent c) is_fetch (new_events s (snd (handle_voice_message w c u s))) \<and>
   preceded download_done is_transcribe (new_events s (snd (handle_voice_message w c u s))) \<and>
   preceded transcription_done is_complete (new_events s (snd (handle_voice_message w c u s))) \<and>
   (case dropWhile (\<lambda>ev. \<not> is_complete ev) (new_events s (snd (handle_voice_message w c u s))) of
      [] \<Rightarrow> True
    | completion # later \<Rightarrow> list_all (delivers c completion) later)"
proof (cases "lookup2 (TEXTS c) ''messages'' ''processing_audio''")
  case (Inl k)
  then show ?thesis by (simp add: handle_voice_message_def)
next
  case (Inr t0)
  note key = Inr
  let ?s1 = "emit (Reply t0 NoParseMode None) s"
  show ?thesis
  proof (cases "reply_text_result w (now s) t0 NoParseMode")
    case (Some e)
    with key show ?thesis
      by (simp add: handle_voice_message_def reply_text_def Let_def)
  next
    case None
    note sent = None
    obtain r s2 where tv: "transcribe_voice w c u ?s1 = (r, s2)"
      by (cases "transcribe_voice w c u ?s1")
    have ne: "new_events ?s1 s2 = drop (Suc (length (trace s))) (trace s2)"
      by (simp add: new_events_def now_def)
    show ?thesis
    proof (cases r)
      case (Inl e)
      with tv have failure: "transcribe_voice w c u ?s1 = (Inl e, s2)" by simp
      from transcribe_voice_disj [of w c u ?s1] failure
      consider
        (get_file) "new_events ?s1 s2 = [GetFile (voice_file_id u) (Inl e)]"
      | (download) fh part where "new_events ?s1 s2 =
            [GetFile (voice_file_id u) (Inr fh), Download fh (temp_ogg_path c) (DownloadFailed e part)]"
      | (transcription) fh b q r' where "new_events ?s1 s2 =
            [GetFile (voice_file_id u) (Inr fh), Download fh (temp_ogg_path c) (Downloaded b),
             OpenRead (temp_ogg_path c) (Some b), Transcribe q r']"
      | (feedback) fh b q transcribed_text fb where "new_events ?s1 s2 =
            [GetFile (voice_file_id u) (Inr fh), Download fh (temp_ogg_path c) (Downloaded b),
             OpenRead (temp_ogg_path c) (Some b), Transcribe q (Inr transcribed_text),
             Reply fb Markdown (Some e)]"
        by (auto simp: ne split: option.splits)
      then show ?thesis
      proof cases
        case get_file
        with key show ?thesis
          by (simp add: handle_voice_failure [OF key sent failure] split: sum.splits)
      next
        case download
        with key show ?thesis
          by (simp add: handle_voice_failure [OF key sent failure] split: sum.splits)
      next
        case transcription
        with key show ?thesis
          by (simp add: handle_voice_failure [OF key sent failure] split: sum.splits)
      next
        case feedback
        with key show ?thesis
          by (simp add: handle_voice_failure [OF key sent failure] split: sum.splits)
      qed
    next
      case (Inr transcribed_text)
      with tv have ok: "transcribe_voice w c u ?s1 = (Inr transcribed_text, s2)" by simp
      from transcribe_voice_disj [of w c u ?s1] ok
      obtain fh b q fb where tve: "new_events ?s1 s2 =
            [GetFile (voice_file_id u) (Inr fh), Download fh (temp_ogg_path c) (Downloaded b),
             OpenRead (temp_ogg_path c) (Some b), Transcribe q (Inr transcribed_text),
             Reply fb Markdown None]"
        by (auto simp: ne split: option.splits)
      from handle_voice_success [OF key sent ok] obtain tail where
        tail: "list_all error_handling tail"
        and evs: "new_events s (snd (handle_voice_message w c u s)) =
             Reply t0 NoParseMode None # new_events ?s1 s2 @
             new_events s2 (snd (generate_jungian_response w c transcribed_text s2)) @ tail"
        by blast
      from generate_events_shape [of s2 w c transcribed_text] obtain gtail where
        gtail: "list_all error_handling gtail"
        and shape: "new_events s2 (snd (generate_jungian_response w c transcribed_text s2)) = gtail \<or>
          (\<exists>q cr. new_events s2 (snd (generate_jungian_response w c transcribed_text s2)) =
             Complete q cr # gtail) \<or>
          (\<exists>q a rest footer r.
             lookup2 (TEXTS c) ''messages'' ''footer_disclaimer'' = Inr footer \<and>
             new_events s2 (snd (generate_jungian_response w c transcribed_text s2)) =
               Complete q (Inr (a # rest)) # Reply (py_str a @ footer) Markdown r # gtail)"
        by blast
      have quiet: "list_all (\<lambda>ev. \<not> is_complete ev) (gtail @ tail)"
        "\<And>d. list_all (delivers c d) (gtail @ tail)"
        using error_handling_all [of "gtail @ tail"] tail gtail by simp_all
      from shape show ?thesis
      proof (elim disjE exE conjE)
        assume "new_events s2 (snd (generate_jungian_response w c transcribed_text s2)) = gtail"
        with key quiet(1) show ?thesis
          by (simp add: evs tve dropWhile_none)
      next
        fix q' cr
        assume "new_events s2 (snd (generate_jungian_response w c transcribed_text s2)) =
                  Complete q' cr # gtail"
        with key quiet(2) show ?thesis
          by (simp add: evs tve)
      next
        fix q' a rest footer r'
        assume "lookup2 (TEXTS c) ''messages'' ''footer_disclaimer'' = Inr footer"
          and "new_events s2 (snd (generate_jungian_response w c transcribed_text s2)) =
                 Complete q' (Inr (a # rest)) # Reply (py_str a @ footer) Markdown r' # gtail"
        with key quiet(2) show ?thesis
          by (simp add: evs tve delivers_def)
      qed
    qed
  qed
qed

text \<open>The run in which every step succeeds.\<close>

theorem voice_steps_in_sequence_witness:
  "new_events empty_state
     (snd (handle_voice_message world_ok demo_config demo_update empty_state)) =
     [Reply ''Ascolto...'' NoParseMode None,
      GetFile ''v1'' (Inr ''voice/v1''),
      Download ''voice/v1'' [''srv'', ''bot'', ''temp_voice.ogg''] (Downloaded ''OggS''),
      OpenRead [''srv'', ''bot'', ''temp_voice.ogg''] (Some ''OggS''),
      Transcribe \<lparr>file_name = ''/srv/bot/temp_voice.ogg'', file_bytes = ''OggS'',
                   whisper_model = ''whisper-large-v3'', language = ''it'',
                   response_format = ''json''\<rparr>
        (Inr ''Ho sognato il mare''),
      Reply ''Hai detto: Ho sognato il mare'' Markdown None,
      Complete \<lparr>messages = [(''system'', ''Sei un analista junghiano.''),
                             (''user'', ''Sogno: Ho sognato il mare'')],
                 model = ''llama-3.3-70b-versatile'', temperature = 7 / 10\<rparr>
        (Inr [Some ''Il mare e l inconscio.'']),
      Reply ''Il mare e l inconscio. (Nota: non sono un medico.)'' Markdown None,
      Remove [''srv'', ''bot'', ''temp_voice.ogg'']] \<and>
   preceded (feedback_sent demo_config) is_fetch
     (new_events empty_state
       (snd (handle_voice_message world_ok demo_config demo_update empty_state))) \<and>
   preceded download_done is_transcribe
     (new_events empty_state
       (snd (handle_voice_message world_ok demo_config demo_update empty_state))) \<and>
   preceded transcription_done is_complete
     (new_events empty_state
       (snd (handle_voice_message world_ok demo_config demo_update empty_state)))"
proof -
  have "new_events empty_state
     (snd (handle_voice_message world_ok demo_config demo_update empty_state)) =
     [Reply ''Ascolto...'' NoParseMode None,
      GetFile ''v1'' (Inr ''voice/v1''),
      Download ''voice/v1'' [''srv'', ''bot'', ''temp_voice.ogg''] (Downloaded ''OggS''),
      OpenRead [''srv'', ''bot'', ''temp_voice.ogg''] (Some ''OggS''),
      Transcribe \<lparr>file_name = ''/srv/bot/temp_voice.ogg'', file_bytes = ''OggS'',
                   whisper_model = ''whisper-large-v3'', language = ''it'',
                   response_format = ''json''\<rparr>
        (Inr ''Ho sognato il mare''),
      Reply ''Hai detto: Ho sognato il mare'' Markdown None,
      Complete \<lparr>messages = [(''system'', ''Sei un analista junghiano.''),
                             (''user'', ''Sogno: Ho sognato il mare'')],
                 model = ''llama-3.3-70b-versatile'', temperature = 7 / 10\<rparr>
        (Inr [Some ''Il mare e l inconscio.'']),
      Reply ''Il mare e l inconscio. (Nota: non sono un medico.)'' Markdown None,
      Remove [''srv'', ''bot'', ''temp_voice.ogg'']]"
    by (simp add: model_defs demo_defs)
  with voice_steps_in_sequence [of demo_config empty_state world_ok demo_update]
  show ?thesis by blast
qed

end
